theory Spec2Isabelle
  imports Complex_Main "HOL-Library.Word"
begin

unbundle bit_operations_syntax

section \<open>Python strings\<close>

text \<open>
  A Python \<open>str\<close> is modelled as a \<open>string\<close> whose characters are the code points
  below 256 (Latin-1). Within that range \<open>str.lower\<close> maps \<open>A..Z\<close> and the
  accented capitals \<open>0xC0..0xDE\<close> (without the multiplication sign \<open>0xD7\<close>) to the
  code point 32 above, and \<open>str.strip\<close> removes the code points for which
  \<open>str.isspace\<close> holds: \<open>0x09..0x0D\<close>, \<open>0x1C..0x20\<close>, \<open>0x85\<close> and \<open>0xA0\<close>.
\<close>

fun lower_char :: "char \<Rightarrow> char" where
  "lower_char (Char b0 b1 b2 b3 b4 b5 b6 b7) =
     (let n = (of_char (Char b0 b1 b2 b3 b4 b5 b6 b7) :: nat)
      in if (65 \<le> n \<and> n \<le> 90) \<or> (192 \<le> n \<and> n \<le> 214) \<or> (216 \<le> n \<and> n \<le> 222)
         then Char b0 b1 b2 b3 b4 True b6 b7 else Char b0 b1 b2 b3 b4 b5 b6 b7)"

definition lower :: "string \<Rightarrow> string" where
  "lower s = map lower_char s"

definition is_space :: "char \<Rightarrow> bool" where
  "is_space c =
     (let n = (of_char c :: nat)
      in (9 \<le> n \<and> n \<le> 13) \<or> (28 \<le> n \<and> n \<le> 32) \<or> n = 133 \<or> n = 160)"

definition strip :: "string \<Rightarrow> string" where
  "strip s = rev (dropWhile is_space (rev (dropWhile is_space s)))"

text \<open>\<open>starts_with p t\<close>: \<open>t.startswith(p)\<close>; \<open>contains p t\<close>: Python's \<open>p in t\<close>.\<close>

fun starts_with :: "string \<Rightarrow> string \<Rightarrow> bool" where
  "starts_with [] t = True"
| "starts_with (p # ps) [] = False"
| "starts_with (p # ps) (c # cs) = (p = c \<and> starts_with ps cs)"

fun contains :: "string \<Rightarrow> string \<Rightarrow> bool" where
  "contains p [] = (p = [])"
| "contains p (c # cs) = (starts_with p (c # cs) \<or> contains p cs)"

section \<open>Python values, exceptions and generators\<close>

text \<open>
  An exception is a value. \<open>ValueError\<close> carries its message where the source builds
  one from constants; \<open>KeyError\<close> carries the missing key.
\<close>

datatype py_error =
    AttributeError
  | TypeError
  | KeyError string
  | ValueError string

text \<open>
  A key of a JSON object read with \<open>d.get(k, default)\<close>: the key is absent (the default
  applies), present with the value \<open>null\<close> (Python \<open>None\<close>, the default does not apply),
  or present with a value of the expected type.
\<close>

datatype 'a field = Absent | Null | Val 'a

text \<open>\<open>d.get(k)\<close> for a key that is only tested for truth or compared: absent and \<open>null\<close> both read \<open>None\<close>.\<close>

fun get_opt :: "'a field \<Rightarrow> 'a option" where
  "get_opt Absent = None"
| "get_opt Null = None"
| "get_opt (Val v) = Some v"

text \<open>Truth of an optional string: \<open>None\<close> and the empty string are false.\<close>

fun truthy :: "string option \<Rightarrow> bool" where
  "truthy None = False"
| "truthy (Some s) = (s \<noteq> [])"

text \<open>
  A generator, run to its end: the values it yields, in order, and the exception that
  ends it, if one does. Values yielded before the exception have reached the consumer.
\<close>

type_synonym 'a gen = "'a list \<times> py_error option"

definition gen_empty :: "'a gen" where
  "gen_empty = ([], None)"

definition gen_yield :: "'a \<Rightarrow> 'a gen" where
  "gen_yield x = ([x], None)"

definition gen_raise :: "py_error \<Rightarrow> 'a gen" where
  "gen_raise e = ([], Some e)"

text \<open>\<open>gen_then g h\<close>: run \<open>g\<close>, then \<open>h\<close> unless \<open>g\<close> raised.\<close>

definition gen_then :: "'a gen \<Rightarrow> 'a gen \<Rightarrow> 'a gen" where
  "gen_then g h = (case snd g of None \<Rightarrow> (fst g @ fst h, snd h) | Some e \<Rightarrow> g)"

text \<open>\<open>for x in g: yield f(x)\<close> and \<open>for x in g: if p(x): yield x\<close>.\<close>

definition gen_map :: "('a \<Rightarrow> 'b) \<Rightarrow> 'a gen \<Rightarrow> 'b gen" where
  "gen_map f g = (map f (fst g), snd g)"

definition gen_filter :: "('a \<Rightarrow> bool) \<Rightarrow> 'a gen \<Rightarrow> 'a gen" where
  "gen_filter p g = (filter p (fst g), snd g)"

text \<open>\<open>for x in xs: yield from body(x)\<close>.\<close>

fun gen_for :: "'a list \<Rightarrow> ('a \<Rightarrow> 'b gen) \<Rightarrow> 'b gen" where
  "gen_for [] body = gen_empty"
| "gen_for (x # xs) body = gen_then (body x) (gen_for xs body)"

section \<open>Raw records\<close>

text \<open>
  The dictionary an extractor yields (\<open>RawRecord\<close>). A key that an extractor does not set,
  or sets to \<open>None\<close>, is \<open>None\<close>: every consumer reads these keys with \<open>get\<close>. The
  fields carry the keys' names behind the prefix \<open>r_\<close>. A float is modelled by the real
  number it denotes (infinities and NaN are not values of the model).
\<close>

record raw_record =
  r_account_name :: string
  r_account_type :: string
  r_parent_account :: "string option"
  r_period_start :: "string option"
  r_period_end :: "string option"
  r_amount :: real
  r_currency :: "string option"
  r_source_system :: string
  r_source_account_id :: "string option"
  r_source_record_id :: "string option"

section \<open>CategoryMapper (utils/category_mapper.py)\<close>

text \<open>
  \<open>CATEGORY_MAPPINGS\<close> is a dict literal; Python dicts iterate in insertion order, so
  the table is an association list in the order of the source.
\<close>

definition CATEGORY_MAPPINGS :: "(string \<times> string list) list" where
  "CATEGORY_MAPPINGS =
    [(''Revenue'',
        [''revenue'', ''sales'', ''income'', ''professional income'',
         ''business revenue'', ''service_division'', ''Sales & Revenue'']),
     (''Cost of Goods Sold'',
        [''cogs'', ''cost of goods'', ''material_cost'', ''material cost'',
         ''shipping_expense'', ''shipping'', ''freight'', ''material_cost'']),
     (''Payroll & Compensation'',
        [''payroll'', ''salary'', ''salaries'', ''wages'', ''compensation'',
         ''labor_expense'', ''labor expense'', ''employee'', ''gratuity'',
         ''vacation payout'', ''contribution to fund'', ''incentive'',
         ''hiring cost'', ''hiring'', ''alc'']),
     (''Marketing & Advertising'',
        [''marketing'', ''advertising'', ''advertisement'', ''promotion'',
         ''marketing_expense'']),
     (''Technology & IT'',
        [''technology_expense'', ''technology'', ''software'', ''it'', ''computer'',
         ''hosting'', ''cloud'', ''saas'', ''internet'', ''network'', ''connectivity'',
         ''application service'', ''secured storage'']),
     (''Professional Services'',
        [''professional_fee'', ''professional'', ''consulting'', ''legal'',
         ''accounting'', ''consultant'', ''audit'', ''license'', ''licensing'',
         ''fts'', ''payment to reviewers'', ''processing fee'']),
     (''Travel & Entertainment'',
        [''travel_expense'', ''travel'', ''trip'', ''entertainment_expense'',
         ''entertainment'', ''meal_expense'', ''meal'', ''hotel'', ''flight'',
         ''personnel travel'', ''accommodation'', ''transportation'',
         ''trip expense'', ''trip insurance'']),
     (''Facilities & Operations'',
        [''facility_cost'', ''facility'', ''facilities'', ''rent'', ''lease'',
         ''utilities'', ''utility_expense'', ''utility'', ''maintenance'',
         ''building'', ''operations_expense'', ''operations'', ''cleaning'',
         ''workplace equipment'', ''leasing'']),
     (''Office & Administrative'',
        [''office_expense'', ''office'', ''supplies'', ''stationery'',
         ''communication_expense'', ''communication'', ''telephone'',
         ''correspondence'', ''administrative'', ''admin'', ''equipment_expense'',
         ''equipment'', ''import duty'', ''additional expenses'', ''fees and memberships'',
         ''membership'', ''insurance_expense'', ''insurance'']),
     (''Research & Development'',
        [''research'', ''development'', ''r&d'', ''rd_'', ''innovation'',
         ''rd_labor_expense'', ''rd_labor'', ''rd_contractor_fee'', ''rd_contractor'',
         ''rd_equipment'', ''rd_supplies'', ''rd_expense'']),
     (''Depreciation & Amortization'',
        [''depreciation_expense'', ''depreciation'', ''amortization'']),
     (''Taxes & Fees'',
        [''tax_expense'', ''tax'', ''taxes'', ''duty'', ''banking_expense'',
         ''bank'', ''financial institution charges'', ''fee for''])]"

definition STANDARD_CATEGORIES :: "string list" where
  "STANDARD_CATEGORIES =
    [''Revenue'', ''Cost of Goods Sold'', ''Payroll & Compensation'',
     ''Marketing & Advertising'', ''Technology & IT'', ''Professional Services'',
     ''Travel & Entertainment'', ''Facilities & Operations'', ''Office & Administrative'',
     ''Research & Development'', ''Depreciation & Amortization'', ''Taxes & Fees'',
     ''Other Expenses'']"

text \<open>
  \<open>pattern_search kw text\<close> is \<open>re.compile(re.escape(kw), re.IGNORECASE).search(text)\<close>
  read as a truth value: the escaped keyword is a literal, so the pattern matches where
  the keyword occurs in the text up to letter case.
\<close>

definition pattern_search :: "string \<Rightarrow> string \<Rightarrow> bool" where
  "pattern_search kw text = contains (lower kw) (lower text)"

text \<open>
  The two nested \<open>for\<close> loops of \<open>map_category\<close>, each with its early \<open>return\<close>:
  \<open>search_patterns\<close> is the inner loop over one category's patterns, \<open>search_categories\<close>
  the outer loop over the table; \<open>None\<close> means the loop ran to its end.
\<close>

fun search_patterns :: "string list \<Rightarrow> string \<Rightarrow> bool" where
  "search_patterns [] text = False"
| "search_patterns (kw # kws) text =
     (if pattern_search kw text then True else search_patterns kws text)"

fun search_categories :: "(string \<times> string list) list \<Rightarrow> string \<Rightarrow> string option" where
  "search_categories [] text = None"
| "search_categories ((category, patterns) # rest) text =
     (if search_patterns patterns text then Some category
      else search_categories rest text)"

definition search_text :: "string \<Rightarrow> string option \<Rightarrow> string" where
  "search_text account_name existing_category =
     lower (account_name @ '' '' @ (case existing_category of None \<Rightarrow> [] | Some c \<Rightarrow> c))"

definition map_category :: "string \<Rightarrow> string \<Rightarrow> string option \<Rightarrow> string" where
  "map_category account_name account_type existing_category =
     (if account_type = ''revenue'' then ''Revenue''
      else if account_type = ''cogs'' then ''Cost of Goods Sold''
      else
        (case search_categories CATEGORY_MAPPINGS (lower account_name) of
           Some category \<Rightarrow> category
         | None \<Rightarrow>
            (case search_categories CATEGORY_MAPPINGS
                    (search_text account_name existing_category) of
               Some category \<Rightarrow> category
             | None \<Rightarrow> ''Other Expenses'')))"

section \<open>hashlib.sha256 and \<open>str.encode\<close>\<close>

text \<open>
  \<open>_generate_account_id\<close> calls \<open>hashlib.sha256(key.encode()).hexdigest()\<close>. The hash
  is SHA-256 of FIPS 180-4 on 32-bit words; \<open>encode\<close> is UTF-8, which for the code
  points below 256 gives one byte below 128 and two bytes from 128 on.
\<close>

type_synonym word32 = "32 word"

type_synonym byte = "8 word"

definition utf8_char :: "char \<Rightarrow> byte list" where
  "utf8_char c =
     (let n = (of_char c :: nat)
      in if n < 128 then [word_of_nat n]
         else [word_of_nat (192 + n div 64), word_of_nat (128 + n mod 64)])"

definition encode :: "string \<Rightarrow> byte list" where
  "encode s = concat (map utf8_char s)"

definition sha256_K :: "word32 list" where
  "sha256_K =
    [0x428a2f98, 0x71374491, 0xb5c0fbcf, 0xe9b5dba5, 0x3956c25b, 0x59f111f1, 0x923f82a4, 0xab1c5ed5]
    @ [0xd807aa98, 0x12835b01, 0x243185be, 0x550c7dc3, 0x72be5d74, 0x80deb1fe, 0x9bdc06a7, 0xc19bf174]
    @ [0xe49b69c1, 0xefbe4786, 0x0fc19dc6, 0x240ca1cc, 0x2de92c6f, 0x4a7484aa, 0x5cb0a9dc, 0x76f988da]
    @ [0x983e5152, 0xa831c66d, 0xb00327c8, 0xbf597fc7, 0xc6e00bf3, 0xd5a79147, 0x06ca6351, 0x14292967]
    @ [0x27b70a85, 0x2e1b2138, 0x4d2c6dfc, 0x53380d13, 0x650a7354, 0x766a0abb, 0x81c2c92e, 0x92722c85]
    @ [0xa2bfe8a1, 0xa81a664b, 0xc24b8b70, 0xc76c51a3, 0xd192e819, 0xd6990624, 0xf40e3585, 0x106aa070]
    @ [0x19a4c116, 0x1e376c08, 0x2748774c, 0x34b0bcb5, 0x391c0cb3, 0x4ed8aa4a, 0x5b9cca4f, 0x682e6ff3]
    @ [0x748f82ee, 0x78a5636f, 0x84c87814, 0x8cc70208, 0x90befffa, 0xa4506ceb, 0xbef9a3f7, 0xc67178f2]"

definition sha256_H0 :: "word32 list" where
  "sha256_H0 =
    [0x6a09e667, 0xbb67ae85, 0x3c6ef372, 0xa54ff53a, 0x510e527f, 0x9b05688c, 0x1f83d9ab, 0x5be0cd19]"

definition Ch :: "word32 \<Rightarrow> word32 \<Rightarrow> word32 \<Rightarrow> word32" where
  "Ch x y z = (x AND y) XOR (NOT x AND z)"

definition Maj :: "word32 \<Rightarrow> word32 \<Rightarrow> word32 \<Rightarrow> word32" where
  "Maj x y z = (x AND y) XOR (x AND z) XOR (y AND z)"

definition big_sigma0 :: "word32 \<Rightarrow> word32" where
  "big_sigma0 x = word_rotr 2 x XOR word_rotr 13 x XOR word_rotr 22 x"

definition big_sigma1 :: "word32 \<Rightarrow> word32" where
  "big_sigma1 x = word_rotr 6 x XOR word_rotr 11 x XOR word_rotr 25 x"

definition small_sigma0 :: "word32 \<Rightarrow> word32" where
  "small_sigma0 x = word_rotr 7 x XOR word_rotr 18 x XOR drop_bit 3 x"

definition small_sigma1 :: "word32 \<Rightarrow> word32" where
  "small_sigma1 x = word_rotr 17 x XOR word_rotr 19 x XOR drop_bit 10 x"

text \<open>Padding: the byte 0x80, zero bytes up to 56 modulo 64, the bit length in 8 bytes.\<close>

definition length_bytes :: "64 word \<Rightarrow> byte list" where
  "length_bytes n = map (\<lambda>i. ucast (drop_bit (8 * (7 - i)) n)) [0..<8]"

definition sha256_pad :: "byte list \<Rightarrow> byte list" where
  "sha256_pad bytes =
     (let l = length bytes
      in bytes @ [0x80] @ replicate ((119 - l mod 64) mod 64) 0
           @ length_bytes (word_of_nat (8 * l)))"

text \<open>Big-endian words of a byte list whose length is a multiple of 4.\<close>

fun bytes_to_words :: "byte list \<Rightarrow> word32 list" where
  "bytes_to_words (a # b # c # d # rest) =
     (push_bit 24 (ucast a) OR push_bit 16 (ucast b) OR push_bit 8 (ucast c) OR ucast d)
       # bytes_to_words rest"
| "bytes_to_words rest = []"

text \<open>
  The message schedule, kept newest first: \<open>extend_schedule n w\<close> adds \<open>n\<close> words to the
  reversed schedule \<open>w\<close>, each from the words 2, 7, 15 and 16 places back.
\<close>

fun extend_schedule :: "nat \<Rightarrow> word32 list \<Rightarrow> word32 list" where
  "extend_schedule 0 w = w"
| "extend_schedule (Suc n) w =
     extend_schedule n
       ((small_sigma1 (w ! 1) + w ! 6 + small_sigma0 (w ! 14) + w ! 15) # w)"

definition schedule :: "word32 list \<Rightarrow> word32 list" where
  "schedule block = rev (extend_schedule 48 (rev block))"

text \<open>One round on the working variables \<open>[a, b, c, d, e, f, g, h]\<close>.\<close>

fun sha256_round :: "word32 list \<Rightarrow> word32 \<times> word32 \<Rightarrow> word32 list" where
  "sha256_round [a, b, c, d, e, f, g, h] (k, w) =
     (let t1 = h + big_sigma1 e + Ch e f g + k + w;
          t2 = big_sigma0 a + Maj a b c
      in [t1 + t2, a, b, c, d + t1, e, f, g])"
| "sha256_round v kw = v"

definition compress :: "word32 list \<Rightarrow> word32 list \<Rightarrow> word32 list" where
  "compress hash block =
     map2 (+) hash (foldl sha256_round hash (zip sha256_K (schedule block)))"

fun sha256_blocks :: "word32 list \<Rightarrow> word32 list \<Rightarrow> word32 list" where
  "sha256_blocks hash ws =
     (if length ws < 16 then hash
      else sha256_blocks (compress hash (take 16 ws)) (drop 16 ws))"

definition hex_digit :: "word32 \<Rightarrow> char" where
  "hex_digit n = ''0123456789abcdef'' ! unat (n AND 15)"

definition hex_word :: "word32 \<Rightarrow> string" where
  "hex_word w = map (\<lambda>i. hex_digit (drop_bit (4 * (7 - i)) w)) [0..<8]"

definition sha256_hexdigest :: "byte list \<Rightarrow> string" where
  "sha256_hexdigest bytes =
     concat (map hex_word (sha256_blocks sha256_H0 (bytes_to_words (sha256_pad bytes))))"

section \<open>RootfiExtractor (extractors/rootfi_extractor.py)\<close>

text \<open>
  A line item of the Rootfi file. \<open>name\<close> and \<open>value\<close> are read with a default, so
  absent and \<open>null\<close> differ; \<open>account_id\<close> is read with \<open>get\<close> alone; \<open>line_items\<close> is
  only tested for truth before it is walked, so an absent key, \<open>null\<close> and the empty list
  are all the empty list here.
\<close>

datatype line_item =
  LineItem (li_name: "string field") (li_value: "real field")
           (li_account_id: "string option") (li_line_items: "line_item list")

text \<open>
  A section (an element of \<open>revenue\<close>, \<open>cost_of_goods_sold\<close> or \<open>operating_expenses\<close>):
  its \<open>line_items\<close> key is tested with \<open>in\<close> and then walked, its \<open>name\<close> read with \<open>get\<close>.
\<close>

datatype rootfi_section =
  Section (sec_name: "string option") (sec_line_items: "line_item list field")

text \<open>
  A period record. The three section lists are tested with
  \<open>"revenue" in record and record["revenue"]\<close>, so an absent key, \<open>null\<close> and the empty
  list are all the empty list. \<open>rootfi_id\<close> is the text \<open>str\<close> gives for the value of
  the key, \<open>None\<close> when the key is absent.
\<close>

record period_record =
  p_period_start :: "string field"
  p_period_end :: "string field"
  p_currency_id :: "string option"
  p_rootfi_id :: "string option"
  p_revenue :: "rootfi_section list"
  p_cost_of_goods_sold :: "rootfi_section list"
  p_operating_expenses :: "rootfi_section list"

text \<open>The value of the top-level key \<open>data\<close> of the parsed file.\<close>

datatype rootfi_data = DataAbsent | DataNotList | DataList "period_record list"

subsection \<open>validate\<close>

text \<open>
  \<open>validate\<close> on the parsed file (reading the file and parsing JSON are not modelled).
  On success it returns \<open>True\<close> and stores the list in \<open>self.data\<close>: the model returns
  the stored list.
\<close>

fun required_fields_check :: "(string \<times> bool) list \<Rightarrow> py_error option" where
  "required_fields_check [] = None"
| "required_fields_check ((field, present) # rest) =
     (if \<not> present then Some (ValueError (''Missing required field: '' @ field))
      else required_fields_check rest)"

definition rootfi_validate :: "rootfi_data \<Rightarrow> py_error + period_record list" where
  "rootfi_validate d =
     (case d of
        DataAbsent \<Rightarrow> Inl (ValueError ''Missing 'data' key in Rootfi file'')
      | DataNotList \<Rightarrow> Inl (ValueError '''data' should be a list of period records'')
      | DataList [] \<Rightarrow> Inl (ValueError ''Empty data array in Rootfi file'')
      | DataList (first_record # rest) \<Rightarrow>
         (case required_fields_check
                 [(''period_start'', p_period_start first_record \<noteq> Absent),
                  (''period_end'', p_period_end first_record \<noteq> Absent)] of
            Some e \<Rightarrow> Inl e
          | None \<Rightarrow> Inr (first_record # rest)))"

subsection \<open>_process_line_items\<close>

text \<open>The dictionary \<open>_process_line_items\<close> yields for a leaf.\<close>

record item_data =
  i_account_name :: string
  i_account_type :: string
  i_parent_account :: "string option"
  i_amount :: real
  i_source_account_id :: "string option"

text \<open>\<open>float(value) if value is not None else 0.0\<close>, for \<open>value = item.get("value", 0)\<close>.\<close>

fun item_amount :: "real field \<Rightarrow> real" where
  "item_amount Absent = 0"
| "item_amount Null = 0"
| "item_amount (Val v) = v"

text \<open>
  \<open>item.get("name", "").strip()\<close>: \<open>None\<close> has no \<open>strip\<close>, so a \<open>null\<close> name raises
  \<open>AttributeError\<close>.
\<close>

fun item_name :: "string field \<Rightarrow> py_error + string" where
  "item_name Absent = Inr (strip [])"
| "item_name Null = Inl AttributeError"
| "item_name (Val s) = Inr (strip s)"

fun process_line_items :: "line_item list \<Rightarrow> string \<Rightarrow> string option \<Rightarrow> item_data gen" where
  "process_line_items [] account_type parent_name = gen_empty"
| "process_line_items (LineItem nm v aid children # rest) account_type parent_name =
     (case item_name nm of
        Inl e \<Rightarrow> gen_raise e
      | Inr name \<Rightarrow>
          gen_then
            (if name \<noteq> [] then
               (if children \<noteq> [] then
                  process_line_items children account_type (Some name)
                else
                  gen_yield
                    \<lparr>i_account_name = name,
                     i_account_type = account_type,
                     i_parent_account = parent_name,
                     i_amount = item_amount v,
                     i_source_account_id = aid\<rparr>)
             else gen_empty)
            (process_line_items rest account_type parent_name))"

subsection \<open>_extract_period and extract\<close>

text \<open>\<open>currency_id or "USD"\<close>.\<close>

fun or_usd :: "string option \<Rightarrow> string" where
  "or_usd None = ''USD''"
| "or_usd (Some c) = (if c = [] then ''USD'' else c)"

text \<open>The dictionary \<open>_extract_period\<close> yields: the leaf's entries and the period's.\<close>

definition period_transaction ::
    "string \<Rightarrow> string \<Rightarrow> string option \<Rightarrow> string option \<Rightarrow> item_data \<Rightarrow> raw_record" where
  "period_transaction start end' currency_id rootfi_id item =
     \<lparr>r_account_name = i_account_name item,
      r_account_type = i_account_type item,
      r_parent_account = i_parent_account item,
      r_period_start = Some start,
      r_period_end = Some end',
      r_amount = i_amount item,
      r_currency = Some (or_usd currency_id),
      r_source_system = ''rootfi'',
      r_source_account_id = i_source_account_id item,
      r_source_record_id = Some (case rootfi_id of None \<Rightarrow> [] | Some i \<Rightarrow> i)\<rparr>"

text \<open>
  One of the three blocks of \<open>_extract_period\<close>: the sections of one kind, walked with
  the account type of that kind. A section whose \<open>line_items\<close> is \<open>null\<close> raises
  \<open>TypeError\<close> when the loop over it starts.
\<close>

definition extract_sections ::
    "rootfi_section list \<Rightarrow> string \<Rightarrow> (item_data \<Rightarrow> raw_record) \<Rightarrow> raw_record gen" where
  "extract_sections sections account_type with_period =
     gen_for sections (\<lambda>s.
       case sec_line_items s of
         Absent \<Rightarrow> gen_empty
       | Null \<Rightarrow> gen_raise TypeError
       | Val items \<Rightarrow> gen_map with_period (process_line_items items account_type (sec_name s)))"

definition extract_period :: "period_record \<Rightarrow> raw_record gen" where
  "extract_period record =
     (let period_start = get_opt (p_period_start record);
          period_end = get_opt (p_period_end record)
      in if \<not> truthy period_start \<or> \<not> truthy period_end then gen_empty
         else
           (case (period_start, period_end) of
              (Some start, Some end') \<Rightarrow>
                (let with_period = period_transaction start end'
                                  (p_currency_id record) (p_rootfi_id record)
                 in gen_then (extract_sections (p_revenue record) ''revenue'' with_period)
                      (gen_then
                         (extract_sections (p_cost_of_goods_sold record) ''cogs'' with_period)
                         (extract_sections (p_operating_expenses record) ''expense'' with_period)))
            | _ \<Rightarrow> gen_empty))"

text \<open>\<open>extract\<close> over the validated list \<open>self.data\<close>: only non-zero amounts are yielded.\<close>

definition rootfi_extract_data :: "period_record list \<Rightarrow> raw_record gen" where
  "rootfi_extract_data data =
     gen_for data (\<lambda>period_record.
       gen_filter (\<lambda>transaction. r_amount transaction \<noteq> 0) (extract_period period_record))"

text \<open>\<open>extract\<close> on a fresh extractor: \<open>self.data\<close> is \<open>None\<close>, so \<open>validate\<close> runs first.\<close>

definition rootfi_extract :: "rootfi_data \<Rightarrow> raw_record gen" where
  "rootfi_extract d =
     (case rootfi_validate d of
        Inl e \<Rightarrow> gen_raise e
      | Inr data \<Rightarrow> rootfi_extract_data data)"

section \<open>QuickBooksExtractor (extractors/quickbooks_extractor.py)\<close>

text \<open>
  A cell of \<open>ColData\<close>: a dictionary whose \<open>value\<close> is read with a default.
\<close>

datatype cell = Cell (cell_value: "string field")

text \<open>
  A row: \<open>type\<close> is read with \<open>get\<close> and compared; \<open>group\<close> is read with the default
  \<open>""\<close>; \<open>ColData\<close> is read with the default \<open>[]\<close> and tested for truth, so an absent
  key, \<open>null\<close> and the empty list are all the empty list. For \<open>Rows\<close> the source
  distinguishes: no key \<open>Rows\<close>; a value that is not a dictionary; a dictionary without
  the key \<open>Row\<close>; a \<open>Row\<close> that is one row; a \<open>Row\<close> that is a list of rows.
\<close>

datatype row =
  Row (row_type: "string option") (row_group: "string field")
      (row_col_data: "cell list") (row_rows: rows_field)
and rows_field =
    NoRows
  | RowsNotDict
  | RowsNoRow
  | RowSingle row
  | RowList "row list"

text \<open>
  A column of \<open>Columns.Column\<close>. \<open>ColType\<close> and \<open>ColTitle\<close> are subscripted (\<open>None\<close> here
  is a missing key, a \<open>KeyError\<close>); \<open>MetaData\<close> is read with the default \<open>[]\<close> and holds
  \<open>Name\<close>/\<open>Value\<close> pairs.
\<close>

record qb_column =
  ColType :: "string option"
  ColTitle :: "string option"
  MetaData :: "(string \<times> string) list"

text \<open>
  The value of the key \<open>data\<close> of the parsed file: \<open>Header\<close> with its \<open>Currency\<close>
  (\<open>None\<close>: no key \<open>Header\<close>), \<open>Columns\<close> with its list \<open>Column\<close> (outer \<open>None\<close>: no key
  \<open>Columns\<close>; inner \<open>None\<close>: no key \<open>Column\<close>), and \<open>Rows\<close>.
\<close>

record qb_data =
  Header :: "string field option"
  Columns :: "qb_column list option option"
  Rows :: rows_field

subsection \<open>validate\<close>

text \<open>
  What \<open>self.data\<close> holds after \<open>validate\<close>: the three keys are present. \<open>Header\<close> is
  kept as its \<open>Currency\<close>, \<open>Columns\<close> as its list \<open>Column\<close> (\<open>None\<close>: no key \<open>Column\<close>).
\<close>

record qb_report =
  report_currency :: "string field"
  report_columns :: "qb_column list option"
  report_rows :: rows_field

text \<open>
  \<open>validate\<close> on the parsed file, \<open>None\<close> standing for a file without the key \<open>data\<close>;
  on success the model returns what \<open>self.data\<close> then holds.
\<close>

definition qb_validate :: "qb_data option \<Rightarrow> py_error + qb_report" where
  "qb_validate file =
     (case file of
        None \<Rightarrow> Inl (ValueError ''Missing 'data' key in QuickBooks file'')
      | Some d \<Rightarrow>
         (case Header d of
            None \<Rightarrow> Inl (ValueError ''Missing 'Header' in QuickBooks data'')
          | Some header_currency \<Rightarrow>
             (case Columns d of
                None \<Rightarrow> Inl (ValueError ''Missing 'Columns' in QuickBooks data'')
              | Some cols \<Rightarrow>
                  if Rows d = NoRows then Inl (ValueError ''Missing 'Rows' in QuickBooks data'')
                  else Inr \<lparr>report_currency = header_currency, report_columns = cols,
                            report_rows = Rows d\<rparr>)))"

subsection \<open>_parse_columns\<close>

record parsed_column =
  title :: string
  start_date :: "string option"
  end_date :: "string option"
  col_key :: "string option"

text \<open>
  \<open>metadata.get(k)\<close> for the dictionary built by the comprehension over \<open>MetaData\<close>: a
  later item with the same \<open>Name\<close> replaces an earlier one.
\<close>

definition metadata_get :: "(string \<times> string) list \<Rightarrow> string \<Rightarrow> string option" where
  "metadata_get items k = map_of (rev items) k"

fun parse_columns :: "qb_column list \<Rightarrow> py_error + parsed_column list" where
  "parse_columns [] = Inr []"
| "parse_columns (col # cols) =
     (case ColType col of
        None \<Rightarrow> Inl (KeyError ''ColType'')
      | Some col_type \<Rightarrow>
          if col_type = ''Money'' then
            (case ColTitle col of
               None \<Rightarrow> Inl (KeyError ''ColTitle'')
             | Some col_title \<Rightarrow>
                 (case parse_columns cols of
                    Inl e \<Rightarrow> Inl e
                  | Inr columns \<Rightarrow>
                      Inr (\<lparr>title = col_title,
                            start_date = metadata_get (MetaData col) ''StartDate'',
                            end_date = metadata_get (MetaData col) ''EndDate'',
                            col_key = metadata_get (MetaData col) ''ColKey''\<rparr> # columns)))
          else parse_columns cols)"

subsection \<open>_process_row\<close>

text \<open>
  The section header sets the account type. \<open>"Income" in group\<close> on a \<open>null\<close> group
  raises \<open>TypeError\<close>.
\<close>

definition section_account_type :: "string field \<Rightarrow> string option \<Rightarrow> py_error + string option" where
  "section_account_type group_field account_type =
     (case group_field of
        Null \<Rightarrow> Inl TypeError
      | _ \<Rightarrow>
         (let grp = (case group_field of Val g \<Rightarrow> g | _ \<Rightarrow> [])
          in if contains ''Income'' grp \<or> contains ''Revenue'' grp then Inr (Some ''revenue'')
             else if contains ''Cost of Goods Sold'' grp \<or> contains ''COGS'' grp
               then Inr (Some ''cogs'')
             else if contains ''Expenses'' grp \<or> contains ''Operating Expenses'' grp
               then Inr (Some ''expense'')
             else Inr account_type))"

text \<open>
  The account name of a data row: \<open>None\<close> for an empty \<open>ColData\<close>, else
  \<open>col_data[0].get("value", "").strip()\<close>, which raises \<open>AttributeError\<close> on \<open>null\<close>.
\<close>

fun first_cell_name :: "cell list \<Rightarrow> py_error + string option" where
  "first_cell_name [] = Inr None"
| "first_cell_name (c # cs) =
     (case cell_value c of
        Absent \<Rightarrow> Inr (Some (strip []))
      | Null \<Rightarrow> Inl AttributeError
      | Val s \<Rightarrow> Inr (Some (strip s)))"

text \<open>
  The amount of a cell. \<open>pyfloat\<close> stands for Python's \<open>float\<close> on a string: the number
  it returns, or \<open>None\<close> where it raises \<open>ValueError\<close>. \<open>amount_text\<close> is
  \<open>col_data[idx + 1].get("value", "0")\<close>, \<open>None\<close> being Python's \<open>None\<close>; \<open>try_amount\<close> is
  the body of the \<open>try\<close>, where \<open>None\<close> has no \<open>replace\<close>; \<open>cell_amount\<close> adds the handler
  \<open>except (ValueError, AttributeError): amount = 0.0\<close>.
\<close>

fun amount_text :: "string field \<Rightarrow> string option" where
  "amount_text Absent = Some ''0''"
| "amount_text Null = None"
| "amount_text (Val s) = Some s"

definition replace_char :: "char \<Rightarrow> string \<Rightarrow> string" where
  "replace_char c s = filter (\<lambda>x. x \<noteq> c) s"

definition try_amount :: "(string \<Rightarrow> real option) \<Rightarrow> string option \<Rightarrow> py_error + real" where
  "try_amount pyfloat amount_str =
     (case amount_str of
        None \<Rightarrow> Inl AttributeError
      | Some s \<Rightarrow>
         (case pyfloat (replace_char (CHR ''$'') (replace_char (CHR '','') s)) of
            None \<Rightarrow> Inl (ValueError ''could not convert string to float'')
          | Some a \<Rightarrow> Inr a))"

fun amount_handler_catches :: "py_error \<Rightarrow> bool" where
  "amount_handler_catches (ValueError m) = True"
| "amount_handler_catches AttributeError = True"
| "amount_handler_catches e = False"

definition cell_amount :: "(string \<Rightarrow> real option) \<Rightarrow> cell \<Rightarrow> py_error + real" where
  "cell_amount pyfloat c =
     (case try_amount pyfloat (amount_text (cell_value c)) of
        Inr a \<Rightarrow> Inr a
      | Inl e \<Rightarrow> if amount_handler_catches e then Inr 0 else Inl e)"

text \<open>\<open>account_type or "other"\<close>.\<close>

fun or_other :: "string option \<Rightarrow> string" where
  "or_other None = ''other''"
| "or_other (Some t) = (if t = [] then ''other'' else t)"

text \<open>
  The loop \<open>for idx, col_def in enumerate(columns)\<close> of a data row with a name, from
  index \<open>idx\<close> on.
\<close>

fun data_cells ::
    "(string \<Rightarrow> real option) \<Rightarrow> string field \<Rightarrow> string \<Rightarrow> string option \<Rightarrow> string option \<Rightarrow>
     cell list \<Rightarrow> nat \<Rightarrow> parsed_column list \<Rightarrow> raw_record gen" where
  "data_cells pyfloat header_currency name parent account_type col_data idx [] = gen_empty"
| "data_cells pyfloat header_currency name parent account_type col_data idx (col_def # columns) =
     gen_then
       (if idx + 1 < length col_data then
          (case cell_amount pyfloat (col_data ! (idx + 1)) of
             Inl e \<Rightarrow> gen_raise e
           | Inr a \<Rightarrow>
               if a \<noteq> 0 then
                 gen_yield
                   \<lparr>r_account_name = name,
                    r_account_type = or_other account_type,
                    r_parent_account = parent,
                    r_period_start = start_date col_def,
                    r_period_end = end_date col_def,
                    r_amount = a,
                    r_currency =
                      (case header_currency of
                         Absent \<Rightarrow> Some ''USD'' | Null \<Rightarrow> None | Val c \<Rightarrow> Some c),
                    r_source_system = ''quickbooks'',
                    r_source_account_id = None,
                    r_source_record_id = None\<rparr>
               else gen_empty)
        else gen_empty)
       (data_cells pyfloat header_currency name parent account_type col_data (idx + 1) columns)"

text \<open>
  \<open>_process_row\<close>, in the order of the source. \<open>row_context\<close> is the part before the
  loops: the account type after the section test, and the account name of a data row
  (\<open>None\<close> for a row of another type). \<open>data_row\<close> is the block \<open>if account_name:\<close>.
  For the children the source computes \<open>child_parent\<close> by the expression that gave
  \<open>account_name\<close>, for a data row only, so \<open>child_parent\<close> is the account name of
  \<open>row_context\<close>; \<open>child_parent or parent_account\<close> is \<open>or_parent\<close>. \<open>process_rows\<close> is
  the loop over the children.
\<close>

definition row_context ::
    "string option \<Rightarrow> string field \<Rightarrow> cell list \<Rightarrow> string option \<Rightarrow>
     py_error + (string option \<times> string option)" where
  "row_context rtype rgroup col_data account_type =
     (case (if rtype = Some ''Section'' then section_account_type rgroup account_type
            else Inr account_type) of
        Inl e \<Rightarrow> Inl e
      | Inr account_type' \<Rightarrow>
         (case (if rtype = Some ''Data'' then first_cell_name col_data else Inr None) of
            Inl e \<Rightarrow> Inl e
          | Inr account_name \<Rightarrow> Inr (account_type', account_name)))"

definition data_row ::
    "(string \<Rightarrow> real option) \<Rightarrow> string field \<Rightarrow> parsed_column list \<Rightarrow> cell list \<Rightarrow>
     string option \<Rightarrow> string option \<Rightarrow> string option \<Rightarrow> raw_record gen" where
  "data_row pyfloat header_currency columns col_data account_name parent_account account_type =
     (case account_name of
        None \<Rightarrow> gen_empty
      | Some name \<Rightarrow>
          if name \<noteq> [] then
            data_cells pyfloat header_currency name parent_account account_type col_data 0 columns
          else gen_empty)"

definition or_parent :: "string option \<Rightarrow> string option \<Rightarrow> string option" where
  "or_parent child_parent parent_account =
     (if truthy child_parent then child_parent else parent_account)"

function (sequential) process_row ::
    "(string \<Rightarrow> real option) \<Rightarrow> string field \<Rightarrow> parsed_column list \<Rightarrow> row \<Rightarrow>
     string option \<Rightarrow> string option \<Rightarrow> raw_record gen"
and process_child_rows ::
    "(string \<Rightarrow> real option) \<Rightarrow> string field \<Rightarrow> parsed_column list \<Rightarrow> rows_field \<Rightarrow>
     string option \<Rightarrow> string option \<Rightarrow> raw_record gen"
and process_rows ::
    "(string \<Rightarrow> real option) \<Rightarrow> string field \<Rightarrow> parsed_column list \<Rightarrow> row list \<Rightarrow>
     string option \<Rightarrow> string option \<Rightarrow> raw_record gen" where
  "process_row pyfloat header_currency columns (Row rtype rgroup col_data rows)
       parent_account account_type =
     (case row_context rtype rgroup col_data account_type of
        Inl e \<Rightarrow> gen_raise e
      | Inr ctx \<Rightarrow>
          gen_then
            (data_row pyfloat header_currency columns col_data (snd ctx) parent_account (fst ctx))
            (process_child_rows pyfloat header_currency columns rows
               (or_parent (snd ctx) parent_account) (fst ctx)))"
| "process_child_rows pyfloat header_currency columns NoRows parent_account account_type =
     gen_empty"
| "process_child_rows pyfloat header_currency columns RowsNotDict parent_account account_type =
     gen_empty"
| "process_child_rows pyfloat header_currency columns RowsNoRow parent_account account_type =
     gen_empty"
| "process_child_rows pyfloat header_currency columns (RowSingle r) parent_account account_type =
     process_rows pyfloat header_currency columns [r] parent_account account_type"
| "process_child_rows pyfloat header_currency columns (RowList rs) parent_account account_type =
     process_rows pyfloat header_currency columns rs parent_account account_type"
| "process_rows pyfloat header_currency columns [] parent_account account_type = gen_empty"
| "process_rows pyfloat header_currency columns (r # rs) parent_account account_type =
     gen_then (process_row pyfloat header_currency columns r parent_account account_type)
       (process_rows pyfloat header_currency columns rs parent_account account_type)"
  by pat_completeness auto

termination
  by (relation "measure (\<lambda>x. case x of
          Inl (pyfloat, header_currency, columns, r, parent_account, account_type) \<Rightarrow> 2 * size r
        | Inr (Inl (pyfloat, header_currency, columns, rows, parent_account, account_type)) \<Rightarrow>
            2 * size rows + 1
        | Inr (Inr (pyfloat, header_currency, columns, rs, parent_account, account_type)) \<Rightarrow>
            2 * size_list size rs)")
    auto

subsection \<open>extract\<close>

text \<open>
  \<open>extract\<close> over the validated \<open>self.data\<close>: the columns are parsed, then the top-level
  rows \<open>self.data.get("Rows", {}).get("Row", [])\<close> are walked with no parent and no
  account type. A \<open>Rows\<close> that is not a dictionary has no \<open>get\<close>.
\<close>

definition qb_extract_data :: "(string \<Rightarrow> real option) \<Rightarrow> qb_report \<Rightarrow> raw_record gen" where
  "qb_extract_data pyfloat d =
     (case report_columns d of
        None \<Rightarrow> gen_raise (KeyError ''Column'')
      | Some cols \<Rightarrow>
         (case parse_columns cols of
            Inl e \<Rightarrow> gen_raise e
          | Inr columns \<Rightarrow>
             (case report_rows d of
                NoRows \<Rightarrow> gen_empty
              | RowsNotDict \<Rightarrow> gen_raise AttributeError
              | RowsNoRow \<Rightarrow> gen_empty
              | RowSingle r \<Rightarrow>
                  process_rows pyfloat (report_currency d) columns [r] None None
              | RowList rs \<Rightarrow>
                  process_rows pyfloat (report_currency d) columns rs None None)))"

text \<open>\<open>extract\<close> on a fresh extractor: \<open>validate\<close> runs first.\<close>

definition qb_extract :: "(string \<Rightarrow> real option) \<Rightarrow> qb_data option \<Rightarrow> raw_record gen" where
  "qb_extract pyfloat file =
     (case qb_validate file of
        Inl e \<Rightarrow> gen_raise e
      | Inr d \<Rightarrow> qb_extract_data pyfloat d)"

section \<open>FinancialTransformer (transformers/financial_transformer.py)\<close>

subsection \<open>_generate_account_id\<close>

definition generate_account_id :: "string \<Rightarrow> string \<Rightarrow> string \<Rightarrow> string" where
  "generate_account_id account_name account_type source_system =
     (let key = lower (source_system @ '':'' @ account_type @ '':'' @ account_name)
      in take 16 (sha256_hexdigest (encode key)))"

subsection \<open>_parse_date\<close>

text \<open>
  A calendar date as year, month and day. \<open>strptime\<close> stands for
  \<open>datetime.strptime(s, "%Y-%m-%d")\<close>: the date it returns, or \<open>None\<close> where it raises
  \<open>ValueError\<close>. \<open>before_T\<close> is \<open>date_str.split("T")[0]\<close>.
\<close>

type_synonym pydate = "nat \<times> nat \<times> nat"

definition before_T :: "string \<Rightarrow> string" where
  "before_T s = takeWhile (\<lambda>c. c \<noteq> CHR ''T'') s"

definition date_formats :: "string list" where
  "date_formats =
     [''%Y-%m-%d'', ''%Y-%m-%dT%H:%M:%S'', ''%Y-%m-%dT%H:%M:%S.%fZ'', ''%Y-%m-%dT%H:%M:%S%z'']"

text \<open>
  The loop over the formats: every turn parses the text before the first \<open>T\<close> with
  \<open>"%Y-%m-%d"\<close>, whatever the format of the turn, and returns at the first success.
\<close>

fun try_formats :: "(string \<Rightarrow> pydate option) \<Rightarrow> string list \<Rightarrow> string \<Rightarrow> pydate option" where
  "try_formats strptime [] date_str = None"
| "try_formats strptime (fmt # formats) date_str =
     (case strptime (before_T date_str) of
        Some d \<Rightarrow> Some d
      | None \<Rightarrow> try_formats strptime formats date_str)"

definition parse_date :: "(string \<Rightarrow> pydate option) \<Rightarrow> string option \<Rightarrow> pydate option" where
  "parse_date strptime date_str =
     (if \<not> truthy date_str then None
      else case date_str of
             None \<Rightarrow> None
           | Some s \<Rightarrow> try_formats strptime date_formats s)"

subsection \<open>transform_transaction\<close>

text \<open>
  The normalized transaction, its keys behind the prefix \<open>n_\<close>. The raw record is one
  an extractor yields, so the keys that \<open>transform_transaction\<close> reads with a default
  are present and of their type. The message of the \<open>ValueError\<close> ends, in the source,
  with the text of the raw record, which is left out here.
\<close>

record normalized_transaction =
  n_account_id :: string
  n_account_name :: string
  n_account_type :: string
  n_account_category :: string
  n_parent_account :: "string option"
  n_source_system :: string
  n_source_account_id :: "string option"
  n_period_start :: pydate
  n_period_end :: pydate
  n_amount :: real
  n_currency :: "string option"
  n_source_record_id :: "string option"

definition transform_transaction ::
    "(string \<Rightarrow> pydate option) \<Rightarrow> raw_record \<Rightarrow> py_error + normalized_transaction" where
  "transform_transaction strptime raw_data =
     (let account_name = strip (r_account_name raw_data);
          account_type = r_account_type raw_data;
          source_system = r_source_system raw_data;
          account_id = generate_account_id account_name account_type source_system
      in case (parse_date strptime (r_period_start raw_data),
               parse_date strptime (r_period_end raw_data)) of
           (Some period_start, Some period_end) \<Rightarrow>
             Inr \<lparr>n_account_id = account_id,
                  n_account_name = account_name,
                  n_account_type = account_type,
                  n_account_category =
                    map_category account_name account_type (r_parent_account raw_data),
                  n_parent_account = r_parent_account raw_data,
                  n_source_system = source_system,
                  n_source_account_id = r_source_account_id raw_data,
                  n_period_start = period_start,
                  n_period_end = period_end,
                  n_amount = r_amount raw_data,
                  n_currency = r_currency raw_data,
                  n_source_record_id = r_source_record_id raw_data\<rparr>
         | _ \<Rightarrow> Inl (ValueError ''Invalid period dates''))"

section \<open>DimensionLoader.upsert_account (loaders/dimension_loader.py)\<close>

text \<open>
  A row of \<open>dim_account\<close>, its columns behind the prefix \<open>da_\<close> (the timestamps are
  not modelled), and the table. The table has
  a unique index on \<open>account_id\<close>; \<open>account_key\<close> is the generated primary key.
\<close>

record dim_account =
  da_account_key :: nat
  da_account_id :: string
  da_account_name :: string
  da_account_type :: string
  da_account_category :: "string option"
  da_parent_account_name :: "string option"
  da_is_parent :: bool
  da_source_system :: string
  da_source_account_id :: "string option"

type_synonym account_table = "dim_account list"

text \<open>The arguments of \<open>upsert_account\<close>, which are the values of the \<open>INSERT\<close>.\<close>

record account_values =
  v_account_id :: string
  v_account_name :: string
  v_account_type :: string
  v_account_category :: "string option"
  v_parent_account_name :: "string option"
  v_is_parent :: bool
  v_source_system :: string
  v_source_account_id :: "string option"

text \<open>A key that no row of the table has: one above the largest.\<close>

definition fresh_key :: "account_table \<Rightarrow> nat" where
  "fresh_key table = Suc (fold max (map da_account_key table) 0)"

text \<open>
  The statement \<open>INSERT ... ON CONFLICT (account_id) DO UPDATE SET ... RETURNING
  account_key\<close>: without a row of that \<open>account_id\<close> a row with a fresh key is
  inserted; with one, the columns named in \<open>set_\<close> are overwritten by the new values
  (\<open>source_system\<close> and \<open>source_account_id\<close> are not named) and the row keeps its key.
  The result is the key and the new table.
\<close>

definition excluded_update :: "account_values \<Rightarrow> dim_account \<Rightarrow> dim_account" where
  "excluded_update v row =
     row\<lparr>da_account_name := v_account_name v,
         da_account_type := v_account_type v,
         da_account_category := v_account_category v,
         da_parent_account_name := v_parent_account_name v,
         da_is_parent := v_is_parent v\<rparr>"

definition insert_on_conflict_update :: "account_values \<Rightarrow> account_table \<Rightarrow> nat \<times> account_table" where
  "insert_on_conflict_update v table =
     (case find (\<lambda>row. da_account_id row = v_account_id v) table of
        None \<Rightarrow>
          (fresh_key table,
           table @ [\<lparr>da_account_key = fresh_key table,
                      da_account_id = v_account_id v,
                      da_account_name = v_account_name v,
                      da_account_type = v_account_type v,
                      da_account_category = v_account_category v,
                      da_parent_account_name = v_parent_account_name v,
                      da_is_parent = v_is_parent v,
                      da_source_system = v_source_system v,
                      da_source_account_id = v_source_account_id v\<rparr>])
      | Some existing \<Rightarrow>
          (da_account_key existing,
           map (\<lambda>row. if da_account_id row = v_account_id v then excluded_update v row else row)
             table))"

text \<open>
  \<open>upsert_account\<close> on a loader with the cache \<open>_account_cache\<close> over the table: the
  key returned, the cache and the table afterwards. A cached key is returned without a
  statement.
\<close>

definition upsert_account ::
    "account_values \<Rightarrow> (string \<rightharpoonup> nat) \<Rightarrow> account_table \<Rightarrow> nat \<times> (string \<rightharpoonup> nat) \<times> account_table" where
  "upsert_account v cache table =
     (case cache (v_account_id v) of
        Some cached \<Rightarrow> (cached, cache, table)
      | None \<Rightarrow>
          (let (key, table') = insert_on_conflict_update v table
           in (key, cache(v_account_id v \<mapsto> key), table')))"

section \<open>FinancialPipeline (financial_pipeline.py)\<close>

text \<open>
  The entry of \<open>failed_records\<close> for a raw record whose processing raised; \<open>f_error\<close>
  stands for the two columns \<open>error_message\<close> and \<open>error_type\<close>.
\<close>

record failed_record =
  f_source_system :: string
  f_account_name :: string
  f_account_type :: string
  f_parent_account :: "string option"
  f_period_start :: "string option"
  f_period_end :: "string option"
  f_amount :: real
  f_currency :: "string option"
  f_error :: py_error

definition make_failed_record :: "string \<Rightarrow> raw_record \<Rightarrow> py_error \<Rightarrow> failed_record" where
  "make_failed_record source_name raw e =
     \<lparr>f_source_system = source_name,
      f_account_name = r_account_name raw,
      f_account_type = r_account_type raw,
      f_parent_account = r_parent_account raw,
      f_period_start = r_period_start raw,
      f_period_end = r_period_end raw,
      f_amount = r_amount raw,
      f_currency = r_currency raw,
      f_error = e\<rparr>"

text \<open>
  \<open>_load_facts_batch\<close> returns the number of facts of the batch whose row was built.
  \<open>rejects\<close> stands for the store: it holds of the facts for which the \<open>try\<close> block
  raises (a key that cannot be resolved, a constraint); such a fact is logged and left
  out. The bulk insert and the commits are taken to succeed.
\<close>

definition load_facts_batch :: "(normalized_transaction \<Rightarrow> bool) \<Rightarrow> normalized_transaction list \<Rightarrow> nat" where
  "load_facts_batch rejects facts = length (filter (\<lambda>fact. \<not> rejects fact) facts)"

text \<open>The variables of the loop of \<open>run_pipeline\<close>.\<close>

record loop_state =
  batch :: "normalized_transaction list"
  total_processed :: nat
  total_failed :: nat
  failed_records :: "failed_record list"

definition flush_batch :: "(normalized_transaction \<Rightarrow> bool) \<Rightarrow> loop_state \<Rightarrow> loop_state" where
  "flush_batch rejects st =
     (let loaded = load_facts_batch rejects (batch st)
      in st\<lparr>total_processed := total_processed st + loaded,
             total_failed := total_failed st + (length (batch st) - loaded),
             batch := []\<rparr>)"

text \<open>One turn of \<open>for raw_record in extractor.extract()\<close>, with its \<open>try\<close> and \<open>except\<close>.\<close>

definition process_record ::
    "(string \<Rightarrow> pydate option) \<Rightarrow> (normalized_transaction \<Rightarrow> bool) \<Rightarrow> int \<Rightarrow> string \<Rightarrow>
     raw_record \<Rightarrow> loop_state \<Rightarrow> loop_state" where
  "process_record strptime rejects chunk_size source_name raw_record st =
     (case transform_transaction strptime raw_record of
        Inr transformed \<Rightarrow>
          (let st' = st\<lparr>batch := batch st @ [transformed]\<rparr>
           in if int (length (batch st')) \<ge> chunk_size then flush_batch rejects st' else st')
      | Inl e \<Rightarrow>
          st\<lparr>failed_records := failed_records st @ [make_failed_record source_name raw_record e],
             total_failed := total_failed st + 1\<rparr>)"

fun run_loop ::
    "(string \<Rightarrow> pydate option) \<Rightarrow> (normalized_transaction \<Rightarrow> bool) \<Rightarrow> int \<Rightarrow> string \<Rightarrow>
     raw_record list \<Rightarrow> loop_state \<Rightarrow> loop_state" where
  "run_loop strptime rejects chunk_size source_name [] st = st"
| "run_loop strptime rejects chunk_size source_name (raw_record # rest) st =
     run_loop strptime rejects chunk_size source_name rest
       (process_record strptime rejects chunk_size source_name raw_record st)"

text \<open>
  What a run leaves behind: the status and the counts of its \<open>PipelineRun\<close> row, the
  rows \<open>_save_failed_records\<close> wrote (\<open>None\<close>: no file, as for an empty list), and what
  \<open>run_pipeline\<close> returned or raised. Run id, timestamps and file names are not
  modelled.
\<close>

record pipeline_stats =
  s_source :: string
  s_records_processed :: nat
  s_records_failed :: nat
  s_has_failed_csv :: bool

record pipeline_outcome =
  run_status :: string
  run_records_processed :: "nat option"
  run_records_failed :: "nat option"
  failed_csv :: "failed_record list option"
  returned :: "py_error + pipeline_stats"

definition save_failed_records :: "failed_record list \<Rightarrow> failed_record list option" where
  "save_failed_records failed = (if failed = [] then None else Some failed)"

text \<open>The handler of the outer \<open>try\<close>: the run is marked failed and the exception raised again.\<close>

definition run_failed :: "failed_record list \<Rightarrow> py_error \<Rightarrow> pipeline_outcome" where
  "run_failed failed e =
     \<lparr>run_status = ''failed'', run_records_processed = None, run_records_failed = None,
      failed_csv = save_failed_records failed, returned = Inl e\<rparr>"

text \<open>
  \<open>run_pipeline\<close> for an extractor given by what its \<open>validate\<close> raises (\<open>None\<close>:
  nothing) and by the run of its \<open>extract\<close>.
\<close>

definition run_pipeline ::
    "(string \<Rightarrow> pydate option) \<Rightarrow> (normalized_transaction \<Rightarrow> bool) \<Rightarrow> int \<Rightarrow> string \<Rightarrow>
     py_error option \<Rightarrow> raw_record gen \<Rightarrow> pipeline_outcome" where
  "run_pipeline strptime rejects chunk_size source_name validate_raises extracted =
     (case validate_raises of
        Some e \<Rightarrow> run_failed [] e
      | None \<Rightarrow>
         (let st = run_loop strptime rejects chunk_size source_name (fst extracted)
                     \<lparr>batch = [], total_processed = 0, total_failed = 0, failed_records = []\<rparr>
          in case snd extracted of
               Some e \<Rightarrow> run_failed (failed_records st) e
             | None \<Rightarrow>
                (let st' = (if batch st \<noteq> [] then flush_batch rejects st else st);
                     csv = save_failed_records (failed_records st')
                 in \<lparr>run_status = ''completed'',
                     run_records_processed = Some (total_processed st'),
                     run_records_failed = Some (total_failed st'),
                     failed_csv = csv,
                     returned =
                       Inr \<lparr>s_source = source_name,
                            s_records_processed = total_processed st',
                            s_records_failed = total_failed st',
                            s_has_failed_csv = (csv \<noteq> None)\<rparr>\<rparr>)))"

text \<open>The run for the Rootfi file and for the QuickBooks file.\<close>

definition run_rootfi_pipeline ::
    "(string \<Rightarrow> pydate option) \<Rightarrow> (normalized_transaction \<Rightarrow> bool) \<Rightarrow> int \<Rightarrow> rootfi_data \<Rightarrow>
     pipeline_outcome" where
  "run_rootfi_pipeline strptime rejects chunk_size d =
     (case rootfi_validate d of
        Inl e \<Rightarrow> run_pipeline strptime rejects chunk_size ''rootfi'' (Some e) gen_empty
      | Inr data \<Rightarrow>
          run_pipeline strptime rejects chunk_size ''rootfi'' None (rootfi_extract_data data))"

definition run_quickbooks_pipeline ::
    "(string \<Rightarrow> pydate option) \<Rightarrow> (normalized_transaction \<Rightarrow> bool) \<Rightarrow> int \<Rightarrow>
     (string \<Rightarrow> real option) \<Rightarrow> qb_data option \<Rightarrow> pipeline_outcome" where
  "run_quickbooks_pipeline strptime rejects chunk_size pyfloat file =
     (case qb_validate file of
        Inl e \<Rightarrow> run_pipeline strptime rejects chunk_size ''quickbooks'' (Some e) gen_empty
      | Inr d \<Rightarrow>
          run_pipeline strptime rejects chunk_size ''quickbooks'' None
            (qb_extract_data pyfloat d))"

section \<open>Definitions for the specification\<close>

text \<open>
  The notions the claims are stated with, and the concrete inputs of the scenarios.
\<close>

subsection \<open>The category rule\<close>

text \<open>
  \<open>occurs_in kw text\<close>: the keyword substring-matches the text case-insensitively.
  \<open>first_matching_category table text\<close>: the first category, in the order of the table,
  one of whose keywords occurs in the text. \<open>no_keyword_occurs table text\<close>: no keyword of
  any category occurs in the text.
\<close>

definition occurs_in :: "string \<Rightarrow> string \<Rightarrow> bool" where
  "occurs_in kw text = (\<exists>before after. lower text = before @ lower kw @ after)"

definition first_matching_category ::
    "(string \<times> string list) list \<Rightarrow> string \<Rightarrow> string option" where
  "first_matching_category table text =
     map_option fst (find (\<lambda>(category, kws). \<exists>kw \<in> set kws. occurs_in kw text) table)"

definition no_keyword_occurs :: "(string \<times> string list) list \<Rightarrow> string \<Rightarrow> bool" where
  "no_keyword_occurs table text =
     (\<forall>(category, kws) \<in> set table. \<forall>kw \<in> set kws. \<not> occurs_in kw text)"

text \<open>The text searched second: the name, a space, and the hint (nothing for no hint).\<close>

definition name_and_hint :: "string \<Rightarrow> string option \<Rightarrow> string" where
  "name_and_hint account_name hint =
     account_name @ '' '' @ (case hint of None \<Rightarrow> [] | Some h \<Rightarrow> h)"

text \<open>
  The table with its keywords lowered, for the evaluation of a search on a concrete
  text.
\<close>

definition lowered_table :: "(string \<times> string list) list" where
  "lowered_table = map (\<lambda>(category, kws). (category, map lower kws)) CATEGORY_MAPPINGS"

subsection \<open>The account identifier\<close>




subsection \<open>Leaves and rollups of the Rootfi tree\<close>

text \<open>
  \<open>stripped_name\<close>: the name of an item with surrounding whitespace removed, empty when
  the item has no name. \<open>emitted_leaf items parent leaf q\<close>: \<open>leaf\<close> is an item without
  children, found in \<open>items\<close> or below named rollups of \<open>items\<close>, and \<open>q\<close> is the name of
  the nearest item enclosing it (\<open>parent\<close>, the name given for the list \<open>items\<close>, for a
  leaf of \<open>items\<close> itself).
\<close>

definition stripped_name :: "line_item \<Rightarrow> string" where
  "stripped_name item = strip (case li_name item of Val s \<Rightarrow> s | _ \<Rightarrow> [])"

inductive emitted_leaf :: "line_item list \<Rightarrow> string option \<Rightarrow> line_item \<Rightarrow> string option \<Rightarrow> bool" where
  here: "item \<in> set items \<Longrightarrow> li_line_items item = [] \<Longrightarrow> stripped_name item \<noteq> [] \<Longrightarrow>
         emitted_leaf items parent item parent"
| below: "item \<in> set items \<Longrightarrow> li_line_items item \<noteq> [] \<Longrightarrow> stripped_name item \<noteq> [] \<Longrightarrow>
          emitted_leaf (li_line_items item) (Some (stripped_name item)) leaf q \<Longrightarrow>
          emitted_leaf items parent leaf q"

text \<open>The record of a leaf under the account type \<open>kind\<close> and the enclosing name \<open>q\<close>.\<close>

definition leaf_record :: "string \<Rightarrow> string option \<Rightarrow> line_item \<Rightarrow> item_data" where
  "leaf_record kind q leaf =
     \<lparr>i_account_name = stripped_name leaf,
      i_account_type = kind,
      i_parent_account = q,
      i_amount = item_amount (li_value leaf),
      i_source_account_id = li_account_id leaf\<rparr>"

text \<open>The three section kinds of a period, each with the account type it fixes.\<close>

definition section_kinds :: "period_record \<Rightarrow> (rootfi_section list \<times> string) list" where
  "section_kinds p =
     [(p_revenue p, ''revenue''),
      (p_cost_of_goods_sold p, ''cogs''),
      (p_operating_expenses p, ''expense'')]"

text \<open>
  The period of end-to-end scenario 2: \<open>Opex\<close> holds the rollup \<open>Payroll\<close> (value 500),
  which holds the leaf \<open>Salaries\<close> (value 500).
\<close>

definition opex_scenario ::
    "string \<Rightarrow> string \<Rightarrow> string option \<Rightarrow> string option \<Rightarrow> period_record" where
  "opex_scenario start end' currency_id rootfi_id =
     \<lparr>p_period_start = Val start, p_period_end = Val end',
      p_currency_id = currency_id, p_rootfi_id = rootfi_id,
      p_revenue = [], p_cost_of_goods_sold = [],
      p_operating_expenses =
        [Section (Some ''Opex'')
           (Val [LineItem (Val ''Payroll'') (Val 500) None
                   [LineItem (Val ''Salaries'') (Val 500) None []]])]\<rparr>"

text \<open>
  Two period records: \<open>dated_period\<close> carries both dates, \<open>undated_period\<close> neither.
\<close>

definition dated_period :: period_record where
  "dated_period =
     \<lparr>p_period_start = Val ''2024-01-01'', p_period_end = Val ''2024-01-31'',
      p_currency_id = Some ''USD'', p_rootfi_id = Some ''1'',
      p_revenue = [], p_cost_of_goods_sold = [], p_operating_expenses = []\<rparr>"

definition undated_period :: period_record where
  "undated_period =
     \<lparr>p_period_start = Absent, p_period_end = Absent,
      p_currency_id = Some ''USD'', p_rootfi_id = Some ''2'',
      p_revenue = [], p_cost_of_goods_sold = [], p_operating_expenses = []\<rparr>"

subsection \<open>Cells of a QuickBooks data row\<close>

text \<open>
  \<open>cell_record\<close>: the record of a data row for one parsed column and one amount.
  \<open>cell_output\<close>: what one cell contributes, given its amount.
\<close>

definition cell_record ::
    "string field \<Rightarrow> string \<Rightarrow> string option \<Rightarrow> string option \<Rightarrow> parsed_column \<Rightarrow> real \<Rightarrow>
     raw_record" where
  "cell_record header_currency name parent account_type col_def a =
     \<lparr>r_account_name = name,
      r_account_type = or_other account_type,
      r_parent_account = parent,
      r_period_start = start_date col_def,
      r_period_end = end_date col_def,
      r_amount = a,
      r_currency =
        (case header_currency of Absent \<Rightarrow> Some ''USD'' | Null \<Rightarrow> None | Val c \<Rightarrow> Some c),
      r_source_system = ''quickbooks'',
      r_source_account_id = None,
      r_source_record_id = None\<rparr>"

definition cell_output ::
    "string field \<Rightarrow> string \<Rightarrow> string option \<Rightarrow> string option \<Rightarrow> parsed_column \<Rightarrow>
     py_error + real \<Rightarrow> raw_record list" where
  "cell_output header_currency name parent account_type col_def amount =
     (case amount of
        Inr a \<Rightarrow> if a \<noteq> 0 then [cell_record header_currency name parent account_type col_def a]
                 else []
      | Inl e \<Rightarrow> [])"

text \<open>
  A report with an account column and three monthly money columns, and one section row
  of group \<open>grp\<close> enclosing one data row \<open>Product Sales\<close> with the cells 1000, 0, 2000.
\<close>

definition money_column :: "string \<Rightarrow> string \<Rightarrow> string \<Rightarrow> qb_column" where
  "money_column col_title start end' =
     \<lparr>ColType = Some ''Money'', ColTitle = Some col_title,
      MetaData = [(''StartDate'', start), (''EndDate'', end')]\<rparr>"

definition income_scenario ::
    "string field \<Rightarrow> string \<Rightarrow> string \<Rightarrow> string \<Rightarrow> string \<Rightarrow> string \<Rightarrow> string \<Rightarrow> string \<Rightarrow> qb_data" where
  "income_scenario header_currency grp start1 end1 start2 end2 start3 end3 =
     \<lparr>Header = Some header_currency,
      Columns = Some (Some
        [\<lparr>ColType = Some ''Account'', ColTitle = Some [], MetaData = [(''ColKey'', ''account'')]\<rparr>,
         money_column ''Jan 2024'' start1 end1,
         money_column ''Feb 2024'' start2 end2,
         money_column ''Mar 2024'' start3 end3]),
      Rows = RowList
        [Row (Some ''Section'') (Val grp) []
           (RowList
              [Row (Some ''Data'') Absent
                 [Cell (Val ''Product Sales''), Cell (Val ''1000''), Cell (Val ''0''),
                  Cell (Val ''2000'')]
                 NoRows])]\<rparr>"

subsection \<open>Instances of the library functions\<close>

text \<open>
  \<open>digits_float\<close> reads a non-empty string of ASCII digits as the integer it denotes and
  rejects every other string. On the digit strings of the scenarios it returns what
  Python's \<open>float\<close> returns. The models take \<open>float\<close> and \<open>strptime\<close> as parameters and
  the theorems hold for every such function; \<open>digits_float\<close> and \<open>ymd_date\<close> serve to
  evaluate the models on concrete inputs.
\<close>

definition digit_of :: "char \<Rightarrow> nat option" where
  "digit_of c =
     (let n = (of_char c :: nat) in if 48 \<le> n \<and> n \<le> 57 then Some (n - 48) else None)"

fun digits_value :: "nat \<Rightarrow> string \<Rightarrow> nat option" where
  "digits_value acc [] = Some acc"
| "digits_value acc (c # cs) =
     (case digit_of c of None \<Rightarrow> None | Some d \<Rightarrow> digits_value (10 * acc + d) cs)"

definition digits_float :: "string \<Rightarrow> real option" where
  "digits_float s = (if s = [] then None else map_option real (digits_value 0 s))"


subsection \<open>An account for the dimension loader\<close>

text \<open>
  The account \<open>Sales\<close> of QuickBooks, and the same account written \<open>SALES\<close>: the
  identifier, made from the lowercased name, is the same.
\<close>

definition sales_values :: account_values where
  "sales_values =
     \<lparr>v_account_id = ''8950a54cfc54dfbf'', v_account_name = ''Sales'',
      v_account_type = ''revenue'', v_account_category = Some ''Revenue'',
      v_parent_account_name = None, v_is_parent = False,
      v_source_system = ''quickbooks'', v_source_account_id = None\<rparr>"

definition sales_row :: "string \<Rightarrow> dim_account" where
  "sales_row name =
     \<lparr>da_account_key = 1, da_account_id = ''8950a54cfc54dfbf'', da_account_name = name,
      da_account_type = ''revenue'', da_account_category = Some ''Revenue'',
      da_parent_account_name = None, da_is_parent = False,
      da_source_system = ''quickbooks'', da_source_account_id = None\<rparr>"

subsection \<open>The counts of a pipeline run\<close>







section \<open>Verification: CategoryMapper\<close>

subsection \<open>The loops compute the first match\<close>

lemma starts_with_iff: "starts_with p t \<longleftrightarrow> (\<exists>after. t = p @ after)"
  by (induction p t rule: starts_with.induct) auto

lemma contains_iff: "contains p t \<longleftrightarrow> (\<exists>before after. t = before @ p @ after)"
proof (induction t)
  case Nil
  then show ?case by simp
next
  case (Cons c cs)
  show ?case
  proof
    assume "contains p (c # cs)"
    then consider "starts_with p (c # cs)" | "contains p cs" by auto
    then show "\<exists>before after. c # cs = before @ p @ after"
    proof cases
      case 1
      then obtain after where "c # cs = p @ after" by (auto simp: starts_with_iff)
      then have "c # cs = [] @ p @ after" by simp
      then show ?thesis by blast
    next
      case 2
      then obtain before after where "cs = before @ p @ after" using Cons.IH by blast
      then have "c # cs = (c # before) @ p @ after" by simp
      then show ?thesis by blast
    qed
  next
    assume "\<exists>before after. c # cs = before @ p @ after"
    then obtain before after where eq: "c # cs = before @ p @ after" by blast
    show "contains p (c # cs)"
    proof (cases before)
      case Nil
      with eq have "starts_with p (c # cs)" by (auto simp: starts_with_iff)
      then show ?thesis by simp
    next
      case (Cons b bs)
      with eq have "cs = bs @ p @ after" by simp
      then have "contains p cs" using Cons.IH by blast
      then show ?thesis by simp
    qed
  qed
qed

lemma lower_char_idem: "lower_char (lower_char c) = lower_char c"
  by (cases c) (simp add: Let_def)

lemma lower_idem: "lower (lower s) = lower s"
  by (simp add: lower_def lower_char_idem)

lemma pattern_search_lower: "pattern_search kw (lower text) = occurs_in kw text"
  by (simp add: pattern_search_def occurs_in_def contains_iff lower_idem)

lemma search_patterns_iff:
  "search_patterns kws (lower text) \<longleftrightarrow> (\<exists>kw \<in> set kws. occurs_in kw text)"
  by (induction kws) (auto simp: pattern_search_lower)

lemma search_categories_first:
  "search_categories table (lower text) = first_matching_category table text"
  by (induction table) (auto simp: first_matching_category_def search_patterns_iff)

lemma first_matching_None:
  "first_matching_category table text = None \<longleftrightarrow> no_keyword_occurs table text"
  by (auto simp: first_matching_category_def no_keyword_occurs_def find_None_iff)

lemma first_matching_in_table:
  "first_matching_category table text = Some c \<Longrightarrow> c \<in> fst ` set table"
  by (induction table) (auto simp: first_matching_category_def split: if_splits)

lemma search_text_lower: "search_text account_name hint = lower (name_and_hint account_name hint)"
  by (simp add: search_text_def name_and_hint_def)

lemma map_category_other:
  "account_type \<noteq> ''revenue'' \<Longrightarrow> account_type \<noteq> ''cogs'' \<Longrightarrow>
   map_category account_name account_type hint =
     (case first_matching_category CATEGORY_MAPPINGS account_name of
        Some category \<Rightarrow> category
      | None \<Rightarrow>
         (case first_matching_category CATEGORY_MAPPINGS (name_and_hint account_name hint) of
            Some category \<Rightarrow> category
          | None \<Rightarrow> ''Other Expenses''))"
  by (simp add: map_category_def search_categories_first search_text_lower
        cong: option.case_cong)

subsection \<open>Evaluating the table on a concrete name\<close>

lemma search_patterns_lowered:
  "search_patterns kws (lower text) =
     list_ex (\<lambda>kw. contains kw (lower text)) (map lower kws)"
  by (induction kws) (auto simp: pattern_search_def lower_idem)

lemma search_categories_lowered:
  "search_categories table (lower text) =
     map_option fst
       (find (\<lambda>(category, kws). list_ex (\<lambda>kw. contains kw (lower text)) kws)
          (map (\<lambda>(category, kws). (category, map lower kws)) table))"
  by (induction table) (auto simp: search_patterns_lowered)

lemma lowered_table_eq:
  "lowered_table =
    [(''Revenue'',
        [''revenue'', ''sales'', ''income'', ''professional income'',
         ''business revenue'', ''service_division'', ''sales & revenue'']),
     (''Cost of Goods Sold'',
        [''cogs'', ''cost of goods'', ''material_cost'', ''material cost'',
         ''shipping_expense'', ''shipping'', ''freight'', ''material_cost'']),
     (''Payroll & Compensation'',
        [''payroll'', ''salary'', ''salaries'', ''wages'', ''compensation'',
         ''labor_expense'', ''labor expense'', ''employee'', ''gratuity'',
         ''vacation payout'', ''contribution to fund'', ''incentive'',
         ''hiring cost'', ''hiring'', ''alc'']),
     (''Marketing & Advertising'',
        [''marketing'', ''advertising'', ''advertisement'', ''promotion'',
         ''marketing_expense'']),
     (''Technology & IT'',
        [''technology_expense'', ''technology'', ''software'', ''it'', ''computer'',
         ''hosting'', ''cloud'', ''saas'', ''internet'', ''network'', ''connectivity'',
         ''application service'', ''secured storage'']),
     (''Professional Services'',
        [''professional_fee'', ''professional'', ''consulting'', ''legal'',
         ''accounting'', ''consultant'', ''audit'', ''license'', ''licensing'',
         ''fts'', ''payment to reviewers'', ''processing fee'']),
     (''Travel & Entertainment'',
        [''travel_expense'', ''travel'', ''trip'', ''entertainment_expense'',
         ''entertainment'', ''meal_expense'', ''meal'', ''hotel'', ''flight'',
         ''personnel travel'', ''accommodation'', ''transportation'',
         ''trip expense'', ''trip insurance'']),
     (''Facilities & Operations'',
        [''facility_cost'', ''facility'', ''facilities'', ''rent'', ''lease'',
         ''utilities'', ''utility_expense'', ''utility'', ''maintenance'',
         ''building'', ''operations_expense'', ''operations'', ''cleaning'',
         ''workplace equipment'', ''leasing'']),
     (''Office & Administrative'',
        [''office_expense'', ''office'', ''supplies'', ''stationery'',
         ''communication_expense'', ''communication'', ''telephone'',
         ''correspondence'', ''administrative'', ''admin'', ''equipment_expense'',
         ''equipment'', ''import duty'', ''additional expenses'', ''fees and memberships'',
         ''membership'', ''insurance_expense'', ''insurance'']),
     (''Research & Development'',
        [''research'', ''development'', ''r&d'', ''rd_'', ''innovation'',
         ''rd_labor_expense'', ''rd_labor'', ''rd_contractor_fee'', ''rd_contractor'',
         ''rd_equipment'', ''rd_supplies'', ''rd_expense'']),
     (''Depreciation & Amortization'',
        [''depreciation_expense'', ''depreciation'', ''amortization'']),
     (''Taxes & Fees'',
        [''tax_expense'', ''tax'', ''taxes'', ''duty'', ''banking_expense'',
         ''bank'', ''financial institution charges'', ''fee for''])]"
  by (simp add: lowered_table_def CATEGORY_MAPPINGS_def lower_def)

lemma first_matching_eval:
  "first_matching_category CATEGORY_MAPPINGS text =
     map_option fst
       (find (\<lambda>(category, kws). list_ex (\<lambda>kw. contains kw (lower text)) kws) lowered_table)"
  unfolding lowered_table_def search_categories_first [symmetric]
  by (rule search_categories_lowered)

lemma office_rent_expense_first:
  "first_matching_category CATEGORY_MAPPINGS ''Office Rent Expense'' =
     Some ''Facilities & Operations''"
  unfolding first_matching_eval lowered_table_eq by (simp add: lower_def)

lemma software_license_first:
  "first_matching_category CATEGORY_MAPPINGS ''Software License'' = Some ''Technology & IT''"
  unfolding first_matching_eval lowered_table_eq by (simp add: lower_def)

lemma misc_first: "first_matching_category CATEGORY_MAPPINGS ''Misc'' = None"
  unfolding first_matching_eval lowered_table_eq by (simp add: lower_def)

lemma misc_hint_first:
  "first_matching_category CATEGORY_MAPPINGS (name_and_hint ''Misc'' None) = None"
  unfolding first_matching_eval lowered_table_eq by (simp add: lower_def name_and_hint_def)

lemma bonus_first: "first_matching_category CATEGORY_MAPPINGS ''Bonus'' = None"
  unfolding first_matching_eval lowered_table_eq by (simp add: lower_def)

lemma bonus_hint_first:
  "first_matching_category CATEGORY_MAPPINGS (name_and_hint ''Bonus'' (Some ''Payroll'')) =
     Some ''Payroll & Compensation''"
  unfolding first_matching_eval lowered_table_eq by (simp add: lower_def name_and_hint_def)

lemma standard_categories_table: "fst ` set CATEGORY_MAPPINGS \<subseteq> set STANDARD_CATEGORIES"
  by (simp add: CATEGORY_MAPPINGS_def STANDARD_CATEGORIES_def)

subsection \<open>C3: categories are tried in the order of the table\<close>

text \<open>
  Claim C3. For an account whose type is neither \<open>revenue\<close> nor \<open>cogs\<close>, \<open>map_category\<close>
  returns the first category, in the declaration order of the static table, one of whose
  keywords occurs case-insensitively in the account name; only when no keyword occurs in
  the name alone is the search repeated on the name joined (by the single space of the
  source's format string) with the existing-category/parent hint, and only when that
  fails too is the result \<open>Other Expenses\<close>. In particular
  \<open>map_category("Office Rent Expense", "expense", None)\<close> is \<open>Facilities & Operations\<close>.
\<close>

theorem map_category_table_order:
  assumes "account_type \<noteq> ''revenue''" and "account_type \<noteq> ''cogs''"
  shows "map_category account_name account_type hint =
           (case first_matching_category CATEGORY_MAPPINGS account_name of
              Some category \<Rightarrow> category
            | None \<Rightarrow>
               (case first_matching_category CATEGORY_MAPPINGS
                       (name_and_hint account_name hint) of
                  Some category \<Rightarrow> category
                | None \<Rightarrow> ''Other Expenses''))
         \<and> map_category ''Office Rent Expense'' ''expense'' None = ''Facilities & Operations''"
proof
  show "map_category account_name account_type hint =
           (case first_matching_category CATEGORY_MAPPINGS account_name of
              Some category \<Rightarrow> category
            | None \<Rightarrow>
               (case first_matching_category CATEGORY_MAPPINGS
                       (name_and_hint account_name hint) of
                  Some category \<Rightarrow> category
                | None \<Rightarrow> ''Other Expenses''))"
    using assms by (rule map_category_other)
next
  have "map_category ''Office Rent Expense'' ''expense'' None =
          (case first_matching_category CATEGORY_MAPPINGS ''Office Rent Expense'' of
              Some category \<Rightarrow> category
            | None \<Rightarrow>
               (case first_matching_category CATEGORY_MAPPINGS
                       (name_and_hint ''Office Rent Expense'' None) of
                  Some category \<Rightarrow> category
                | None \<Rightarrow> ''Other Expenses''))"
    by (rule map_category_other) simp_all
  then show "map_category ''Office Rent Expense'' ''expense'' None = ''Facilities & Operations''"
    by (simp add: office_rent_expense_first)
qed

text \<open>
  Witnesses: \<open>Software License\<close> holds keywords of two categories (\<open>software\<close>, \<open>license\<close>)
  and gets the one declared first; \<open>Bonus\<close> holds none, and is categorised through its
  parent hint.
\<close>

theorem map_category_table_order_witness:
  "''expense'' \<noteq> ''revenue'' \<and> ''expense'' \<noteq> ''cogs''
   \<and> map_category ''Software License'' ''expense'' None = ''Technology & IT''
   \<and> map_category ''Bonus'' ''expense'' (Some ''Payroll'') = ''Payroll & Compensation''"
proof -
  have t: "''expense'' \<noteq> ''revenue''" "''expense'' \<noteq> ''cogs''" by simp_all
  show ?thesis
    using map_category_table_order [OF t, of "''Software License''" None]
      map_category_table_order [OF t, of "''Bonus''" "Some ''Payroll''"]
    by (simp add: software_license_first bonus_first bonus_hint_first)
qed

subsection \<open>C4: the short circuits and the default\<close>

text \<open>
  Claim C4. \<open>map_category\<close> is total: for every name, type and hint it returns a value,
  and that value is one of the standard categories. For the type \<open>revenue\<close> it is the
  constant \<open>Revenue\<close> and for the type \<open>cogs\<close> the constant \<open>Cost of Goods Sold\<close>, whatever
  the name and the hint; for any other type, when no keyword occurs in the name nor in
  the name joined with the hint, it is \<open>Other Expenses\<close>.
\<close>

theorem map_category_total:
  "map_category account_name account_type hint \<in> set STANDARD_CATEGORIES
   \<and> map_category account_name ''revenue'' hint = ''Revenue''
   \<and> map_category account_name ''cogs'' hint = ''Cost of Goods Sold''
   \<and> (account_type \<noteq> ''revenue'' \<and> account_type \<noteq> ''cogs''
        \<and> no_keyword_occurs CATEGORY_MAPPINGS account_name
        \<and> no_keyword_occurs CATEGORY_MAPPINGS (name_and_hint account_name hint)
      \<longrightarrow> map_category account_name account_type hint = ''Other Expenses'')"
proof (intro conjI impI)
  show "map_category account_name ''revenue'' hint = ''Revenue''"
    by (simp add: map_category_def)
  show "map_category account_name ''cogs'' hint = ''Cost of Goods Sold''"
    by (simp add: map_category_def)
  show "map_category account_name account_type hint = ''Other Expenses''"
    if "account_type \<noteq> ''revenue'' \<and> account_type \<noteq> ''cogs''
        \<and> no_keyword_occurs CATEGORY_MAPPINGS account_name
        \<and> no_keyword_occurs CATEGORY_MAPPINGS (name_and_hint account_name hint)"
    using that by (simp add: map_category_other first_matching_None [symmetric])
  show "map_category account_name account_type hint \<in> set STANDARD_CATEGORIES"
  proof (cases "account_type = ''revenue'' \<or> account_type = ''cogs''")
    case True
    then show ?thesis by (auto simp: map_category_def STANDARD_CATEGORIES_def)
  next
    case False
    have other: "''Other Expenses'' \<in> set STANDARD_CATEGORIES"
      by (simp add: STANDARD_CATEGORIES_def)
    have std: "c \<in> set STANDARD_CATEGORIES"
      if "first_matching_category CATEGORY_MAPPINGS t = Some c" for t c
      using first_matching_in_table [OF that] standard_categories_table by blast
    from False have "map_category account_name account_type hint =
           (case first_matching_category CATEGORY_MAPPINGS account_name of
              Some category \<Rightarrow> category
            | None \<Rightarrow>
               (case first_matching_category CATEGORY_MAPPINGS
                       (name_and_hint account_name hint) of
                  Some category \<Rightarrow> category
                | None \<Rightarrow> ''Other Expenses''))"
      by (simp add: map_category_other)
    then show ?thesis
      using std other by (simp split: option.splits)
  qed
qed

theorem map_category_total_witness:
  "map_category ''Misc'' ''expense'' None \<in> set STANDARD_CATEGORIES
   \<and> map_category ''Misc'' ''revenue'' None = ''Revenue''
   \<and> map_category ''Misc'' ''cogs'' None = ''Cost of Goods Sold''
   \<and> ''expense'' \<noteq> ''revenue'' \<and> ''expense'' \<noteq> ''cogs''
   \<and> no_keyword_occurs CATEGORY_MAPPINGS ''Misc''
   \<and> no_keyword_occurs CATEGORY_MAPPINGS (name_and_hint ''Misc'' None)
   \<and> map_category ''Misc'' ''expense'' None = ''Other Expenses''"
proof -
  have a: "no_keyword_occurs CATEGORY_MAPPINGS ''Misc''"
    using misc_first by (simp add: first_matching_None)
  have b: "no_keyword_occurs CATEGORY_MAPPINGS (name_and_hint ''Misc'' None)"
    using misc_hint_first by (simp add: first_matching_None)
  show ?thesis
    using map_category_total [of "''Misc''" "''expense''" None] a b by blast
qed

section \<open>Verification: values of the instances\<close>

lemma digits_float_values:
  "digits_float ''1000'' = Some 1000" "digits_float ''0'' = Some 0"
  "digits_float ''2000'' = Some 2000" "digits_float ''n/a'' = None"
  by (simp_all add: digits_float_def digit_of_def)


section \<open>Verification: generators\<close>

lemma gen_then_empty_left: "gen_then gen_empty g = g"
  by (simp add: gen_then_def gen_empty_def)

lemma gen_then_empty_right: "gen_then g gen_empty = g"
  by (cases g) (simp add: gen_then_def gen_empty_def split: option.splits)

lemma gen_then_assoc: "gen_then (gen_then f g) h = gen_then f (gen_then g h)"
  by (simp add: gen_then_def split: option.splits)

lemma fst_gen_then_subset: "set (fst (gen_then g h)) \<subseteq> set (fst g) \<union> set (fst h)"
  by (auto simp: gen_then_def split: option.splits)

lemma in_fst_gen_then:
  "r \<in> set (fst (gen_then g h)) \<Longrightarrow> r \<in> set (fst g) \<or> r \<in> set (fst h)"
  using fst_gen_then_subset [of g h] by auto

lemma fst_gen_then_ok:
  "snd (gen_then g h) = None \<Longrightarrow> fst (gen_then g h) = fst g @ fst h"
  by (auto simp: gen_then_def split: option.splits)

lemma snd_gen_then_None:
  "snd (gen_then g h) = None \<longleftrightarrow> snd g = None \<and> snd h = None"
  by (auto simp: gen_then_def split: option.splits)

lemma gen_for_append: "gen_for (xs @ ys) body = gen_then (gen_for xs body) (gen_for ys body)"
  by (induction xs) (simp_all add: gen_then_empty_left gen_then_assoc)

lemma fst_gen_for_subset:
  "r \<in> set (fst (gen_for xs body)) \<Longrightarrow> \<exists>x \<in> set xs. r \<in> set (fst (body x))"
proof (induction xs)
  case Nil
  then show ?case by (simp add: gen_empty_def)
next
  case (Cons x xs)
  then have "r \<in> set (fst (body x)) \<or> r \<in> set (fst (gen_for xs body))"
    using fst_gen_then_subset [of "body x" "gen_for xs body"] by auto
  with Cons.IH show ?case by auto
qed

section \<open>Verification: account identity\<close>

subsection \<open>The hashed key\<close>

lemma lower_append: "lower (a @ b) = lower a @ lower b"
  by (simp add: lower_def)





subsection \<open>C2: the identifier is a function of the lowercased inputs\<close>




section \<open>Verification: RootfiExtractor\<close>

subsection \<open>What the walk over line items yields\<close>

lemma process_line_items_append:
  "process_line_items (xs @ ys) kind parent =
     gen_then (process_line_items xs kind parent) (process_line_items ys kind parent)"
proof (induction xs)
  case Nil
  then show ?case by (simp add: gen_then_empty_left)
next
  case (Cons x xs)
  obtain nm v aid children where x: "x = LineItem nm v aid children" by (cases x)
  show ?case
  proof (cases "item_name nm")
    case (Inl e)
    then show ?thesis by (simp add: x gen_raise_def gen_then_def)
  next
    case (Inr name)
    then show ?thesis using Cons.IH by (simp add: x gen_then_assoc)
  qed
qed

lemma item_name_stripped:
  "item_name (li_name item) = Inr name \<Longrightarrow> name = stripped_name item"
  by (cases "li_name item") (auto simp: stripped_name_def)

lemma emitted_leaf_mono:
  assumes "emitted_leaf items parent leaf q" and "set items \<subseteq> set items'"
  shows "emitted_leaf items' parent leaf q"
  using assms(1)
proof cases
  case here
  then show ?thesis using assms(2) by (auto intro: emitted_leaf.here)
next
  case (below item)
  then show ?thesis using assms(2) by (auto intro: emitted_leaf.below)
qed

lemma process_line_items_sound:
  "r \<in> set (fst (process_line_items items kind parent)) \<Longrightarrow>
   \<exists>leaf q. emitted_leaf items parent leaf q \<and> r = leaf_record kind q leaf"
proof (induction items kind parent rule: process_line_items.induct)
  case (1 kind parent)
  then show ?case by (simp add: gen_empty_def)
next
  case (2 nm v aid children rest kind parent)
  let ?item = "LineItem nm v aid children"
  show ?case
  proof (cases "item_name nm")
    case (Inl e)
    with "2.prems" show ?thesis by (simp add: gen_raise_def)
  next
    case (Inr name)
    have name: "name = stripped_name ?item"
      using Inr item_name_stripped [of ?item name] by simp
    let ?cur = "if name \<noteq> [] then
               (if children \<noteq> [] then process_line_items children kind (Some name)
                else gen_yield (leaf_record kind parent ?item))
             else gen_empty"
    have eq: "process_line_items (?item # rest) kind parent =
                gen_then ?cur (process_line_items rest kind parent)"
    proof -
      have "strip (case nm of Val s \<Rightarrow> s | _ \<Rightarrow> []) = name"
        using Inr by (cases nm) auto
      then show ?thesis
        using Inr by (simp add: leaf_record_def stripped_name_def)
    qed
    have "r \<in> set (fst (gen_then ?cur (process_line_items rest kind parent)))"
      using "2.prems" by (simp only: eq)
    then consider (a) "r \<in> set (fst ?cur)"
      | (b) "r \<in> set (fst (process_line_items rest kind parent))"
      using fst_gen_then_subset by fastforce
    then show ?thesis
    proof cases
      case a
      show ?thesis
      proof (cases "name = []")
        case True
        with a show ?thesis by (simp add: gen_empty_def)
      next
        case False
        show ?thesis
        proof (cases "children = []")
          case True
          with a False have "r = leaf_record kind parent ?item"
            by (simp add: gen_yield_def)
          moreover have "emitted_leaf (?item # rest) parent ?item parent"
            using True False name by (intro emitted_leaf.here) simp_all
          ultimately show ?thesis by blast
        next
          case nonempty: False
          with a False have "r \<in> set (fst (process_line_items children kind (Some name)))"
            by simp
          then obtain leaf q where
            leaf: "emitted_leaf children (Some name) leaf q" "r = leaf_record kind q leaf"
            using "2.IH"(1) [OF Inr False nonempty] by blast
          have "emitted_leaf (?item # rest) parent leaf q"
            using emitted_leaf.below [of ?item "?item # rest" leaf q parent]
              leaf(1) nonempty False name by simp
          with leaf(2) show ?thesis by blast
        qed
      qed
    next
      case b
      then obtain leaf q where
        leaf: "emitted_leaf rest parent leaf q" "r = leaf_record kind q leaf"
        using "2.IH"(2) [OF Inr] by blast
      from leaf(1) have "emitted_leaf (?item # rest) parent leaf q"
        by (rule emitted_leaf_mono) auto
      with leaf(2) show ?thesis by blast
    qed
  qed
qed

lemma emitted_leaf_is_leaf: "emitted_leaf items parent leaf q \<Longrightarrow> li_line_items leaf = []"
  by (induction rule: emitted_leaf.induct) simp_all

lemma walk_of_member:
  assumes "item \<in> set items" and "snd (process_line_items items kind parent) = None"
  shows "snd (process_line_items [item] kind parent) = None"
    and "set (fst (process_line_items [item] kind parent))
           \<subseteq> set (fst (process_line_items items kind parent))"
proof -
  from assms(1) obtain xs ys where items: "items = xs @ [item] @ ys"
    by (auto dest: split_list)
  let ?whole = "gen_then (process_line_items xs kind parent)
                  (gen_then (process_line_items [item] kind parent)
                     (process_line_items ys kind parent))"
  have whole: "process_line_items items kind parent = ?whole"
    unfolding items by (simp only: process_line_items_append)
  with assms(2) have ok: "snd ?whole = None" by simp
  then have parts: "snd (process_line_items xs kind parent) = None"
    "snd (process_line_items [item] kind parent) = None"
    "snd (process_line_items ys kind parent) = None"
    by (simp_all add: snd_gen_then_None)
  show "snd (process_line_items [item] kind parent) = None" by (rule parts(2))
  have "fst ?whole = fst (process_line_items xs kind parent)
          @ fst (process_line_items [item] kind parent)
          @ fst (process_line_items ys kind parent)"
    using parts by (simp add: fst_gen_then_ok snd_gen_then_None)
  then show "set (fst (process_line_items [item] kind parent))
           \<subseteq> set (fst (process_line_items items kind parent))"
    using whole by auto
qed

lemma walk_of_named_item:
  assumes "stripped_name item \<noteq> []" and "snd (process_line_items [item] kind parent) = None"
  shows "process_line_items [item] kind parent =
           (if li_line_items item \<noteq> [] then
              process_line_items (li_line_items item) kind (Some (stripped_name item))
            else gen_yield (leaf_record kind parent item))"
proof -
  obtain nm v aid children where item: "item = LineItem nm v aid children" by (cases item)
  from assms(2) obtain name where name: "item_name nm = Inr name"
    by (cases "item_name nm") (auto simp: item gen_raise_def)
  then have "name = stripped_name item"
    using item_name_stripped [of item name] by (simp add: item)
  moreover have "stripped_name item = strip (case nm of Val s \<Rightarrow> s | _ \<Rightarrow> [])"
    by (simp add: item stripped_name_def)
  ultimately show ?thesis
    using name assms(1)
    by (simp add: item gen_then_empty_right leaf_record_def stripped_name_def)
qed

lemma process_line_items_complete:
  assumes "emitted_leaf items parent leaf q"
    and "snd (process_line_items items kind parent) = None"
  shows "leaf_record kind q leaf \<in> set (fst (process_line_items items kind parent))"
  using assms
proof (induction rule: emitted_leaf.induct)
  case (here item items parent)
  note single = walk_of_member [OF here(1) here(4)]
  have "process_line_items [item] kind parent = gen_yield (leaf_record kind parent item)"
    using walk_of_named_item [OF here(3) single(1)] here(2) by simp
  then have "leaf_record kind parent item \<in> set (fst (process_line_items [item] kind parent))"
    by (simp add: gen_yield_def)
  with single(2) show ?case by blast
next
  case (below item items leaf q parent)
  note single = walk_of_member [OF below(1) below(6)]
  have walk: "process_line_items [item] kind parent =
          process_line_items (li_line_items item) kind (Some (stripped_name item))"
    using walk_of_named_item [OF below(3) single(1)] below(2) by simp
  then have "snd (process_line_items (li_line_items item) kind (Some (stripped_name item))) = None"
    using single(1) by simp
  then have "leaf_record kind q leaf
      \<in> set (fst (process_line_items (li_line_items item) kind (Some (stripped_name item))))"
    by (rule below.IH)
  with walk single(2) show ?case by auto
qed

lemma extract_sections_sound:
  assumes "r \<in> set (fst (extract_sections secs kind with_period))"
  shows "\<exists>s \<in> set secs. \<exists>items leaf q.
           sec_line_items s = Val items \<and> emitted_leaf items (sec_name s) leaf q
           \<and> r = with_period (leaf_record kind q leaf)"
proof -
  from assms obtain s where s: "s \<in> set secs"
    and r: "r \<in> set (fst (case sec_line_items s of
                 Absent \<Rightarrow> gen_empty
               | Null \<Rightarrow> gen_raise TypeError
               | Val items \<Rightarrow>
                   gen_map with_period (process_line_items items kind (sec_name s))))"
    unfolding extract_sections_def by (blast dest: fst_gen_for_subset)
  from r obtain items where items: "sec_line_items s = Val items"
    and "r \<in> with_period ` set (fst (process_line_items items kind (sec_name s)))"
    by (cases "sec_line_items s") (auto simp: gen_empty_def gen_raise_def gen_map_def)
  then obtain i where "i \<in> set (fst (process_line_items items kind (sec_name s)))"
    and ri: "r = with_period i" by blast
  then obtain leaf q where "emitted_leaf items (sec_name s) leaf q" "i = leaf_record kind q leaf"
    using process_line_items_sound by blast
  with s items ri show ?thesis by blast
qed

lemma extract_period_sound:
  assumes "r \<in> set (fst (extract_period p))"
  shows "\<exists>start end' secs kind. p_period_start p = Val start \<and> p_period_end p = Val end'
           \<and> start \<noteq> [] \<and> end' \<noteq> [] \<and> (secs, kind) \<in> set (section_kinds p)
           \<and> (\<exists>s \<in> set secs. \<exists>items leaf q.
                 sec_line_items s = Val items \<and> emitted_leaf items (sec_name s) leaf q
                 \<and> r = period_transaction start end' (p_currency_id p) (p_rootfi_id p)
                         (leaf_record kind q leaf))"
proof -
  have dated: "truthy (get_opt (p_period_start p)) \<and> truthy (get_opt (p_period_end p))"
    using assms by (auto simp: extract_period_def Let_def gen_empty_def split: if_splits)
  then obtain start end' where start: "p_period_start p = Val start" "start \<noteq> []"
    and end': "p_period_end p = Val end'" "end' \<noteq> []"
    by (cases "p_period_start p"; cases "p_period_end p") auto
  let ?f = "period_transaction start end' (p_currency_id p) (p_rootfi_id p)"
  have "extract_period p =
          gen_then (extract_sections (p_revenue p) ''revenue'' ?f)
            (gen_then (extract_sections (p_cost_of_goods_sold p) ''cogs'' ?f)
               (extract_sections (p_operating_expenses p) ''expense'' ?f))"
    using start end' by (simp add: extract_period_def Let_def)
  with assms consider
      "r \<in> set (fst (extract_sections (p_revenue p) ''revenue'' ?f))"
    | "r \<in> set (fst (extract_sections (p_cost_of_goods_sold p) ''cogs'' ?f))"
    | "r \<in> set (fst (extract_sections (p_operating_expenses p) ''expense'' ?f))"
    by (auto dest!: in_fst_gen_then)
  then obtain secs kind where "(secs, kind) \<in> set (section_kinds p)"
    and "r \<in> set (fst (extract_sections secs kind ?f))"
    by cases (auto simp: section_kinds_def)
  with start end' show ?thesis
    using extract_sections_sound [of r secs kind ?f] by blast
qed

lemma rootfi_extract_data_sound:
  assumes "r \<in> set (fst (rootfi_extract_data periods))"
  shows "r_amount r \<noteq> 0 \<and> (\<exists>p \<in> set periods. r \<in> set (fst (extract_period p)))"
proof -
  from assms obtain p where "p \<in> set periods"
    and "r \<in> set (fst (gen_filter (\<lambda>t. r_amount t \<noteq> 0) (extract_period p)))"
    unfolding rootfi_extract_data_def by (blast dest: fst_gen_for_subset)
  then show ?thesis by (auto simp: gen_filter_def)
qed

lemma rootfi_validate_Inr: "rootfi_validate d = Inr periods \<Longrightarrow> d = DataList periods"
  by (auto simp: rootfi_validate_def split: rootfi_data.splits list.splits option.splits)

lemma opex_scenario_extract:
  assumes "start \<noteq> []" and "end' \<noteq> []"
  shows "rootfi_extract (DataList [opex_scenario start end' currency_id rootfi_id]) =
           ([\<lparr>r_account_name = ''Salaries'', r_account_type = ''expense'',
               r_parent_account = Some ''Payroll'',
               r_period_start = Some start, r_period_end = Some end',
               r_amount = 500, r_currency = Some (or_usd currency_id),
               r_source_system = ''rootfi'', r_source_account_id = None,
               r_source_record_id = Some (case rootfi_id of None \<Rightarrow> [] | Some i \<Rightarrow> i)\<rparr>],
            None)"
proof -
  have names: "strip ''Payroll'' = ''Payroll''" "strip ''Salaries'' = ''Salaries''"
    by (simp_all add: strip_def is_space_def)
  show ?thesis
    using assms
    by (simp add: rootfi_extract_def rootfi_validate_def opex_scenario_def
        rootfi_extract_data_def extract_period_def extract_sections_def names
        gen_then_def gen_empty_def gen_yield_def gen_map_def gen_filter_def
        period_transaction_def)
qed

subsection \<open>C1: rollups are never emitted, only their leaves\<close>

text \<open>
  Claim C1. Every record the Rootfi extractor yields is the record of a leaf: there is a
  period of the input, one of its three section kinds, a section of that kind and a
  line item without children, in the section's list or below named rollups of it, such
  that the record carries the leaf's stripped name and amount, the account type fixed by
  the section kind, and as \<open>parent_account\<close> the name of the nearest item enclosing the
  leaf (the section's name for a leaf directly in the section's list). So an item whose
  \<open>line_items\<close> is non-empty is never emitted itself. In particular a period whose
  \<open>operating_expenses\<close> is \<open>Opex\<close> holding \<open>Payroll\<close> (500) holding \<open>Salaries\<close> (500) yields
  exactly one record, (\<open>Salaries\<close>, 500, parent \<open>Payroll\<close>, type \<open>expense\<close>), and none for
  \<open>Payroll\<close> or \<open>Opex\<close>. Conversely, when the walk over a list raises nothing, the record
  of every such leaf is among the records of the walk.
\<close>

theorem rootfi_emits_only_leaves:
  "(r \<in> set (fst (rootfi_extract d)) \<longrightarrow>
      (\<exists>periods p start end' secs kind s items leaf q.
          d = DataList periods \<and> p \<in> set periods
          \<and> p_period_start p = Val start \<and> p_period_end p = Val end'
          \<and> (secs, kind) \<in> set (section_kinds p) \<and> s \<in> set secs
          \<and> sec_line_items s = Val items
          \<and> emitted_leaf items (sec_name s) leaf q \<and> li_line_items leaf = []
          \<and> r = period_transaction start end' (p_currency_id p) (p_rootfi_id p)
                  (leaf_record kind q leaf)
          \<and> r_amount r \<noteq> 0))
   \<and> (start0 \<noteq> [] \<and> end0 \<noteq> [] \<longrightarrow>
        rootfi_extract (DataList [opex_scenario start0 end0 currency_id rootfi_id]) =
          ([\<lparr>r_account_name = ''Salaries'', r_account_type = ''expense'',
              r_parent_account = Some ''Payroll'',
              r_period_start = Some start0, r_period_end = Some end0,
              r_amount = 500, r_currency = Some (or_usd currency_id),
              r_source_system = ''rootfi'', r_source_account_id = None,
              r_source_record_id = Some (case rootfi_id of None \<Rightarrow> [] | Some i \<Rightarrow> i)\<rparr>],
           None))
   \<and> (emitted_leaf items0 parent0 leaf0 q0
        \<and> snd (process_line_items items0 kind0 parent0) = None \<longrightarrow>
        leaf_record kind0 q0 leaf0 \<in> set (fst (process_line_items items0 kind0 parent0)))"
proof (intro conjI impI)
  assume "emitted_leaf items0 parent0 leaf0 q0
        \<and> snd (process_line_items items0 kind0 parent0) = None"
  then show "leaf_record kind0 q0 leaf0 \<in> set (fst (process_line_items items0 kind0 parent0))"
    by (simp add: process_line_items_complete)
next
  assume r: "r \<in> set (fst (rootfi_extract d))"
  then obtain periods where v: "rootfi_validate d = Inr periods"
    and rp: "r \<in> set (fst (rootfi_extract_data periods))"
    by (cases "rootfi_validate d") (auto simp: rootfi_extract_def gen_raise_def)
  from v have d: "d = DataList periods" by (rule rootfi_validate_Inr)
  from rp obtain p where p: "p \<in> set periods" "r \<in> set (fst (extract_period p))"
    and nz: "r_amount r \<noteq> 0"
    using rootfi_extract_data_sound by blast
  from p(2) obtain start end' secs kind s items leaf q where
    "p_period_start p = Val start" "p_period_end p = Val end'"
    "(secs, kind) \<in> set (section_kinds p)" "s \<in> set secs"
    "sec_line_items s = Val items" "emitted_leaf items (sec_name s) leaf q"
    "r = period_transaction start end' (p_currency_id p) (p_rootfi_id p)
           (leaf_record kind q leaf)"
    using extract_period_sound [of r p] by blast
  moreover from this have "li_line_items leaf = []" by (simp add: emitted_leaf_is_leaf)
  ultimately show "\<exists>periods p start end' secs kind s items leaf q.
          d = DataList periods \<and> p \<in> set periods
          \<and> p_period_start p = Val start \<and> p_period_end p = Val end'
          \<and> (secs, kind) \<in> set (section_kinds p) \<and> s \<in> set secs
          \<and> sec_line_items s = Val items
          \<and> emitted_leaf items (sec_name s) leaf q \<and> li_line_items leaf = []
          \<and> r = period_transaction start end' (p_currency_id p) (p_rootfi_id p)
                  (leaf_record kind q leaf)
          \<and> r_amount r \<noteq> 0"
    using d p(1) nz by blast
next
  assume "start0 \<noteq> [] \<and> end0 \<noteq> []"
  then show "rootfi_extract (DataList [opex_scenario start0 end0 currency_id rootfi_id]) =
          ([\<lparr>r_account_name = ''Salaries'', r_account_type = ''expense'',
              r_parent_account = Some ''Payroll'',
              r_period_start = Some start0, r_period_end = Some end0,
              r_amount = 500, r_currency = Some (or_usd currency_id),
              r_source_system = ''rootfi'', r_source_account_id = None,
              r_source_record_id = Some (case rootfi_id of None \<Rightarrow> [] | Some i \<Rightarrow> i)\<rparr>],
           None)"
    by (simp add: opex_scenario_extract)
qed

text \<open>
  Witness: the scenario for January 2024. Its one record satisfies the hypothesis, and
  the leaf the theorem gives for it exists.
\<close>

theorem rootfi_emits_only_leaves_witness:
  "\<lparr>r_account_name = ''Salaries'', r_account_type = ''expense'',
      r_parent_account = Some ''Payroll'',
      r_period_start = Some ''2024-01-01'', r_period_end = Some ''2024-01-31'',
      r_amount = 500, r_currency = Some ''USD'',
      r_source_system = ''rootfi'', r_source_account_id = None,
      r_source_record_id = Some []\<rparr>
     \<in> set (fst (rootfi_extract
                   (DataList [opex_scenario ''2024-01-01'' ''2024-01-31'' None None])))
   \<and> (\<exists>periods p start end' secs kind s items leaf q.
          DataList [opex_scenario ''2024-01-01'' ''2024-01-31'' None None] = DataList periods
          \<and> p \<in> set periods
          \<and> p_period_start p = Val start \<and> p_period_end p = Val end'
          \<and> (secs, kind) \<in> set (section_kinds p) \<and> s \<in> set secs
          \<and> sec_line_items s = Val items
          \<and> emitted_leaf items (sec_name s) leaf q \<and> li_line_items leaf = []
          \<and> \<lparr>r_account_name = ''Salaries'', r_account_type = ''expense'',
                r_parent_account = Some ''Payroll'',
                r_period_start = Some ''2024-01-01'', r_period_end = Some ''2024-01-31'',
                r_amount = 500, r_currency = Some ''USD'',
                r_source_system = ''rootfi'', r_source_account_id = None,
                r_source_record_id = Some []\<rparr>
              = period_transaction start end' (p_currency_id p) (p_rootfi_id p)
                  (leaf_record kind q leaf))
   \<and> emitted_leaf
         [LineItem (Val ''Payroll'') (Val 500) None [LineItem (Val ''Salaries'') (Val 500) None []]]
         (Some ''Opex'') (LineItem (Val ''Salaries'') (Val 500) None []) (Some ''Payroll'')
   \<and> leaf_record ''expense'' (Some ''Payroll'') (LineItem (Val ''Salaries'') (Val 500) None [])
       \<in> set (fst (process_line_items
           [LineItem (Val ''Payroll'') (Val 500) None [LineItem (Val ''Salaries'') (Val 500) None []]]
           ''expense'' (Some ''Opex'')))
   \<and> ''2024-01-01'' \<noteq> [] \<and> ''2024-01-31'' \<noteq> []
   \<and> rootfi_extract (DataList [opex_scenario ''2024-01-01'' ''2024-01-31'' None None]) =
          ([\<lparr>r_account_name = ''Salaries'', r_account_type = ''expense'',
              r_parent_account = Some ''Payroll'',
              r_period_start = Some ''2024-01-01'', r_period_end = Some ''2024-01-31'',
              r_amount = 500, r_currency = Some ''USD'',
              r_source_system = ''rootfi'', r_source_account_id = None,
              r_source_record_id = Some []\<rparr>],
           None)"
proof -
  let ?d = "DataList [opex_scenario ''2024-01-01'' ''2024-01-31'' None None]"
  let ?r = "\<lparr>r_account_name = ''Salaries'', r_account_type = ''expense'',
      r_parent_account = Some ''Payroll'',
      r_period_start = Some ''2024-01-01'', r_period_end = Some ''2024-01-31'',
      r_amount = 500, r_currency = Some ''USD'',
      r_source_system = ''rootfi'', r_source_account_id = None,
      r_source_record_id = Some []\<rparr>"
  let ?salaries = "LineItem (Val ''Salaries'') (Val 500) None []"
  let ?payroll = "LineItem (Val ''Payroll'') (Val 500) None [?salaries]"
  note inst = rootfi_emits_only_leaves
    [where r = ?r and d = ?d and ?start0.0 = "''2024-01-01''" and ?end0.0 = "''2024-01-31''"
       and currency_id = None and rootfi_id = None
       and ?items0.0 = "[?payroll]" and ?parent0.0 = "Some ''Opex''" and ?leaf0.0 = ?salaries
       and ?q0.0 = "Some ''Payroll''" and ?kind0.0 = "''expense''"]
  have names: "strip ''Payroll'' = ''Payroll''" "strip ''Salaries'' = ''Salaries''"
    by (simp_all add: strip_def is_space_def)
  have "emitted_leaf [?salaries] (Some (stripped_name ?payroll)) ?salaries
          (Some (stripped_name ?payroll))"
    by (rule emitted_leaf.here) (simp_all add: stripped_name_def names)
  then have "emitted_leaf [?payroll] (Some ''Opex'') ?salaries (Some (stripped_name ?payroll))"
    using emitted_leaf.below [of ?payroll "[?payroll]" ?salaries "Some (stripped_name ?payroll)"
        "Some ''Opex''"]
    by (simp add: stripped_name_def names)
  then have leaf: "emitted_leaf [?payroll] (Some ''Opex'') ?salaries (Some ''Payroll'')"
    by (simp add: stripped_name_def names)
  have quiet: "snd (process_line_items [?payroll] ''expense'' (Some ''Opex'')) = None"
    by (simp add: names gen_then_def gen_empty_def gen_yield_def)
  from inst leaf quiet have found:
    "leaf_record ''expense'' (Some ''Payroll'') ?salaries
       \<in> set (fst (process_line_items [?payroll] ''expense'' (Some ''Opex'')))"
    by blast
  have dates: "''2024-01-01'' \<noteq> [] \<and> ''2024-01-31'' \<noteq> []" by simp
  from inst dates have run: "rootfi_extract ?d = ([?r], None)" by simp
  then have mem: "?r \<in> set (fst (rootfi_extract ?d))" by simp
  from inst mem have
    "\<exists>periods p start end' secs kind s items leaf q.
          ?d = DataList periods \<and> p \<in> set periods
          \<and> p_period_start p = Val start \<and> p_period_end p = Val end'
          \<and> (secs, kind) \<in> set (section_kinds p) \<and> s \<in> set secs
          \<and> sec_line_items s = Val items
          \<and> emitted_leaf items (sec_name s) leaf q \<and> li_line_items leaf = []
          \<and> ?r = period_transaction start end' (p_currency_id p) (p_rootfi_id p)
                  (leaf_record kind q leaf)
          \<and> r_amount ?r \<noteq> 0"
    by blast
  then have ex:
    "\<exists>periods p start end' secs kind s items leaf q.
          ?d = DataList periods \<and> p \<in> set periods
          \<and> p_period_start p = Val start \<and> p_period_end p = Val end'
          \<and> (secs, kind) \<in> set (section_kinds p) \<and> s \<in> set secs
          \<and> sec_line_items s = Val items
          \<and> emitted_leaf items (sec_name s) leaf q \<and> li_line_items leaf = []
          \<and> ?r = period_transaction start end' (p_currency_id p) (p_rootfi_id p)
                  (leaf_record kind q leaf)"
    by blast
  from mem ex leaf found dates run show ?thesis by blast
qed

subsection \<open>C10: an item without a name contributes nothing\<close>

lemma strip_empty_iff: "strip s = [] \<longleftrightarrow> (\<forall>c \<in> set s. is_space c)"
proof
  assume "strip s = []"
  then have all: "\<forall>c \<in> set (dropWhile is_space s). is_space c"
    by (simp add: strip_def dropWhile_eq_Nil_conv)
  have "dropWhile is_space s = []"
  proof (rule ccontr)
    assume ne: "dropWhile is_space s \<noteq> []"
    then have "\<not> is_space (hd (dropWhile is_space s))" by (rule hd_dropWhile)
    moreover have "hd (dropWhile is_space s) \<in> set (dropWhile is_space s)"
      using ne by simp
    ultimately show False using all by blast
  qed
  then show "\<forall>c \<in> set s. is_space c" by (simp add: dropWhile_eq_Nil_conv)
next
  assume "\<forall>c \<in> set s. is_space c"
  then have "dropWhile is_space s = []" by (simp add: dropWhile_eq_Nil_conv)
  then show "strip s = []" by (simp only: strip_def rev.simps dropWhile.simps)
qed

lemma nameless_item_walk:
  assumes "li_name item = Absent \<or> (\<exists>s. li_name item = Val s \<and> (\<forall>c \<in> set s. is_space c))"
  shows "process_line_items (item # rest) kind parent = process_line_items rest kind parent"
proof -
  obtain nm v aid children where item: "item = LineItem nm v aid children" by (cases item)
  have "strip [] = []" by (simp add: strip_def)
  moreover have "strip s = []" if "\<forall>c \<in> set s. is_space c" for s
    using that by (simp only: strip_empty_iff)
  ultimately have "item_name nm = Inr []"
    using assms item by auto
  then show ?thesis by (simp add: item gen_then_empty_left)
qed

text \<open>
  Claim C10. A line item whose name is absent, empty or made of whitespace only
  contributes nothing to the output of the walk: walking it alone yields no record and
  raises nothing, whatever its amount and whatever line items it holds, and a list that
  contains it yields what the list without it yields. So the descendants of a nameless
  rollup are dropped with it, and since nothing is yielded and nothing raised, no
  failure is recorded.
\<close>

theorem nameless_item_contributes_nothing:
  assumes "li_name item = Absent \<or> (\<exists>s. li_name item = Val s \<and> (\<forall>c \<in> set s. is_space c))"
  shows "process_line_items [item] kind parent = ([], None)
         \<and> process_line_items (before @ item # rest) kind parent =
             process_line_items (before @ rest) kind parent"
proof
  show "process_line_items [item] kind parent = ([], None)"
    using nameless_item_walk [OF assms, of "[]" kind parent] by (simp add: gen_empty_def)
  show "process_line_items (before @ item # rest) kind parent =
          process_line_items (before @ rest) kind parent"
    by (simp add: process_line_items_append nameless_item_walk [OF assms])
qed

text \<open>
  Witness: a rollup named by two spaces, holding the leaf \<open>Bonus\<close>, followed by the leaf
  \<open>Rent\<close>: only \<open>Rent\<close> is yielded.
\<close>

theorem nameless_item_contributes_nothing_witness:
  "(li_name (LineItem (Val ''  '') (Val 70) None [LineItem (Val ''Bonus'') (Val 70) None []])
      = Absent
    \<or> (\<exists>s. li_name (LineItem (Val ''  '') (Val 70) None
                       [LineItem (Val ''Bonus'') (Val 70) None []]) = Val s
           \<and> (\<forall>c \<in> set s. is_space c)))
   \<and> process_line_items
        [LineItem (Val ''  '') (Val 70) None [LineItem (Val ''Bonus'') (Val 70) None []]]
        ''expense'' (Some ''Opex'') = ([], None)
   \<and> process_line_items
        ([] @ LineItem (Val ''  '') (Val 70) None [LineItem (Val ''Bonus'') (Val 70) None []]
            # [LineItem (Val ''Rent'') (Val 30) None []])
        ''expense'' (Some ''Opex'') =
       ([\<lparr>i_account_name = ''Rent'', i_account_type = ''expense'',
           i_parent_account = Some ''Opex'', i_amount = 30,
           i_source_account_id = None\<rparr>], None)"
proof -
  let ?item = "LineItem (Val ''  '') (Val 70) None [LineItem (Val ''Bonus'') (Val 70) None []]"
  have blank: "li_name ?item = Absent
     \<or> (\<exists>s. li_name ?item = Val s \<and> (\<forall>c \<in> set s. is_space c))"
    by (simp add: is_space_def)
  have rent: "process_line_items ([] @ [LineItem (Val ''Rent'') (Val 30) None []])
                 ''expense'' (Some ''Opex'') =
       ([\<lparr>i_account_name = ''Rent'', i_account_type = ''expense'',
           i_parent_account = Some ''Opex'', i_amount = 30,
           i_source_account_id = None\<rparr>], None)"
    by (simp add: strip_def is_space_def gen_then_def gen_empty_def gen_yield_def)
  show ?thesis
    using nameless_item_contributes_nothing
      [OF blank, of "''expense''" "Some ''Opex''" "[]" "[LineItem (Val ''Rent'') (Val 30) None []]"]
      blank rent
    by simp
qed

subsection \<open>C8: validate checks the list and its first record\<close>

text \<open>
  Claim C8, as the code has it. \<open>validate\<close> raises a \<open>ValueError\<close> whose message names the
  key when \<open>data\<close> is missing, is not a list, or is empty, and when the first period
  record lacks \<open>period_start\<close> or \<open>period_end\<close> (a key that is present passes, whatever its
  value); otherwise it returns true and keeps the list, whatever the last record holds:
  the last record is only read for the log line.
\<close>

theorem rootfi_validate_first_record:
  "rootfi_validate DataAbsent = Inl (ValueError ''Missing 'data' key in Rootfi file'')
   \<and> rootfi_validate DataNotList =
        Inl (ValueError '''data' should be a list of period records'')
   \<and> rootfi_validate (DataList []) = Inl (ValueError ''Empty data array in Rootfi file'')
   \<and> (p_period_start first_record = Absent \<longrightarrow>
        rootfi_validate (DataList (first_record # rest)) =
          Inl (ValueError ''Missing required field: period_start''))
   \<and> (p_period_start first_record \<noteq> Absent \<and> p_period_end first_record = Absent \<longrightarrow>
        rootfi_validate (DataList (first_record # rest)) =
          Inl (ValueError ''Missing required field: period_end''))
   \<and> (p_period_start first_record \<noteq> Absent \<and> p_period_end first_record \<noteq> Absent \<longrightarrow>
        rootfi_validate (DataList (first_record # rest)) = Inr (first_record # rest))"
  by (simp add: rootfi_validate_def)

theorem rootfi_validate_first_record_witness:
  "p_period_start undated_period = Absent
   \<and> rootfi_validate (DataList [undated_period, dated_period]) =
        Inl (ValueError ''Missing required field: period_start'')
   \<and> p_period_start (dated_period\<lparr>p_period_end := Absent\<rparr>) \<noteq> Absent
   \<and> p_period_end (dated_period\<lparr>p_period_end := Absent\<rparr>) = Absent
   \<and> rootfi_validate (DataList [dated_period\<lparr>p_period_end := Absent\<rparr>]) =
        Inl (ValueError ''Missing required field: period_end'')
   \<and> p_period_start dated_period \<noteq> Absent \<and> p_period_end dated_period \<noteq> Absent
   \<and> rootfi_validate (DataList [dated_period, undated_period]) =
        Inr [dated_period, undated_period]"
  using rootfi_validate_first_record [of undated_period "[dated_period]"]
    rootfi_validate_first_record [of "dated_period\<lparr>p_period_end := Absent\<rparr>" "[]"]
    rootfi_validate_first_record [of dated_period "[undated_period]"]
  by (simp add: dated_period_def undated_period_def)

text \<open>
  The claim as the specification words it (an error also when the last record lacks a
  date) fails: a list whose last record has neither date is accepted.
\<close>

theorem rootfi_validate_last_record_counterexample:
  "p_period_start undated_period = Absent \<and> p_period_end undated_period = Absent
   \<and> last [dated_period, undated_period] = undated_period
   \<and> rootfi_validate (DataList [dated_period, undated_period]) =
        Inr [dated_period, undated_period]"
  by (simp add: rootfi_validate_def dated_period_def undated_period_def)

section \<open>Verification: QuickBooksExtractor\<close>

subsection \<open>The cells of a data row\<close>

lemma try_amount_caught: "try_amount pyfloat t = Inl e \<Longrightarrow> amount_handler_catches e"
  by (auto simp: try_amount_def split: option.splits)

lemma cell_amount_returns: "\<exists>a. cell_amount pyfloat c = Inr a"
  by (cases "try_amount pyfloat (amount_text (cell_value c))")
     (auto simp: cell_amount_def dest: try_amount_caught)

lemma data_cells_aligned:
  "data_cells pyfloat header_currency name parent account_type col_data idx columns =
     (concat (map (\<lambda>(col_def, c).
                 cell_output header_currency name parent account_type col_def
                   (cell_amount pyfloat c))
              (zip columns (drop (idx + 1) col_data))),
      None)"
proof (induction columns arbitrary: idx)
  case Nil
  then show ?case by (simp add: gen_empty_def)
next
  case (Cons col_def columns)
  obtain a where a: "cell_amount pyfloat (col_data ! (idx + 1)) = Inr a"
    using cell_amount_returns by blast
  show ?case
  proof (cases "idx + 1 < length col_data")
    case True
    then have "drop (idx + 1) col_data = col_data ! (idx + 1) # drop (idx + 2) col_data"
      by (simp add: Cons_nth_drop_Suc)
    then show ?thesis
      using True a Cons.IH [of "idx + 1"]
      by (simp add: gen_then_def gen_empty_def gen_yield_def cell_output_def cell_record_def)
  next
    case False
    then show ?thesis
      using Cons.IH [of "idx + 1"]
      by (simp add: gen_then_def gen_empty_def)
  qed
qed

lemma cell_output_nonzero:
  "r \<in> set (cell_output header_currency name parent account_type col_def amount) \<Longrightarrow>
   r_amount r \<noteq> 0"
  by (auto simp: cell_output_def cell_record_def split: sum.splits if_splits)

lemma data_cells_nonzero:
  "r \<in> set (fst (data_cells pyfloat header_currency name parent account_type col_data idx columns))
   \<Longrightarrow> r_amount r \<noteq> 0"
  by (auto simp: data_cells_aligned dest: cell_output_nonzero)

lemma data_row_nonzero:
  "r \<in> set (fst (data_row pyfloat header_currency columns col_data account_name parent account_type))
   \<Longrightarrow> r_amount r \<noteq> 0"
  by (auto simp: data_row_def gen_empty_def dest: data_cells_nonzero
      split: option.splits if_splits)

lemma process_row_nonzero:
  shows "r \<in> set (fst (process_row pyfloat header_currency columns rw parent account_type))
      \<longrightarrow> r_amount r \<noteq> 0"
  and "r \<in> set (fst (process_child_rows pyfloat header_currency columns rows parent' account_type'))
      \<longrightarrow> r_amount r \<noteq> 0"
  and "r \<in> set (fst (process_rows pyfloat header_currency columns rs parent'' account_type''))
      \<longrightarrow> r_amount r \<noteq> 0"
proof (induction pyfloat header_currency columns rw parent account_type
         and pyfloat header_currency columns rows parent' account_type'
         and pyfloat header_currency columns rs parent'' account_type''
       rule: process_row_process_child_rows_process_rows.induct)
  case (1 pyfloat header_currency columns rtype rgroup col_data rows parent_account account_type)
  show ?case
  proof (cases "row_context rtype rgroup col_data account_type")
    case (Inl e)
    then show ?thesis by (simp add: gen_raise_def)
  next
    case (Inr ctx)
    then show ?thesis
      using "1.IH" [OF Inr]
      by (auto dest!: in_fst_gen_then dest: data_row_nonzero)
  qed
next
  case (8 pyfloat header_currency columns r rs parent_account account_type)
  then show ?case by (auto dest!: in_fst_gen_then)
qed (simp_all add: gen_empty_def)

lemma qb_extract_nonzero:
  assumes "r \<in> set (fst (qb_extract pyfloat file))"
  shows "r_amount r \<noteq> 0"
proof -
  from assms obtain d where "qb_validate file = Inr d"
    and r: "r \<in> set (fst (qb_extract_data pyfloat d))"
    by (cases "qb_validate file") (auto simp: qb_extract_def gen_raise_def)
  from r obtain header_currency columns rs where
    "r \<in> set (fst (process_rows pyfloat header_currency columns rs None None))"
    by (auto simp: qb_extract_data_def gen_raise_def gen_empty_def
        simp del: process_rows.simps split: option.splits sum.splits rows_field.splits)
  then show ?thesis using process_row_nonzero(3) by blast
qed

lemma data_cells_same_amounts:
  assumes "cell_amount pyfloat c = cell_amount pyfloat c'"
  shows "data_cells pyfloat header_currency name parent account_type (col_data[i := c]) idx columns =
         data_cells pyfloat header_currency name parent account_type (col_data[i := c']) idx columns"
proof -
  let ?out = "\<lambda>col_def amount. cell_output header_currency name parent account_type col_def amount"
  have zip_amount: "map (\<lambda>(col_def, x). ?out col_def (cell_amount pyfloat x)) (zip columns cells) =
        map (\<lambda>(col_def, amount). ?out col_def amount)
          (zip columns (map (cell_amount pyfloat) cells))" for cells
    by (simp add: zip_map2 case_prod_unfold)
  have "map (cell_amount pyfloat) (drop (idx + 1) (col_data[i := c])) =
        map (cell_amount pyfloat) (drop (idx + 1) (col_data[i := c']))"
    using assms by (simp add: drop_map [symmetric] map_update)
  then show ?thesis
    by (simp only: data_cells_aligned zip_amount)
qed

subsection \<open>End-to-end scenario 1\<close>

lemma income_scenario_extract:
  assumes "pyfloat ''1000'' = Some 1000" and "pyfloat ''0'' = Some 0"
    and "pyfloat ''2000'' = Some 2000" and "contains ''Income'' grp"
  shows "qb_extract pyfloat
           (Some (income_scenario header_currency grp start1 end1 start2 end2 start3 end3)) =
         ([cell_record header_currency ''Product Sales'' None (Some ''revenue'')
             \<lparr>title = ''Jan 2024'', start_date = Some start1, end_date = Some end1,
                col_key = None\<rparr> 1000,
           cell_record header_currency ''Product Sales'' None (Some ''revenue'')
             \<lparr>title = ''Mar 2024'', start_date = Some start3, end_date = Some end3,
                col_key = None\<rparr> 2000],
          None)"
proof -
  have columns: "parse_columns
        [\<lparr>ColType = Some ''Account'', ColTitle = Some [], MetaData = [(''ColKey'', ''account'')]\<rparr>,
         money_column ''Jan 2024'' start1 end1,
         money_column ''Feb 2024'' start2 end2,
         money_column ''Mar 2024'' start3 end3] =
      Inr [\<lparr>title = ''Jan 2024'', start_date = Some start1, end_date = Some end1, col_key = None\<rparr>,
           \<lparr>title = ''Feb 2024'', start_date = Some start2, end_date = Some end2, col_key = None\<rparr>,
           \<lparr>title = ''Mar 2024'', start_date = Some start3, end_date = Some end3, col_key = None\<rparr>]"
    by (simp add: money_column_def metadata_get_def)
  have name: "strip ''Product Sales'' = ''Product Sales''"
    by (simp add: strip_def is_space_def)
  have amounts:
    "cell_amount pyfloat (Cell (Val ''1000'')) = Inr 1000"
    "cell_amount pyfloat (Cell (Val ''0'')) = Inr 0"
    "cell_amount pyfloat (Cell (Val ''2000'')) = Inr 2000"
    using assms(1-3) by (simp_all add: cell_amount_def try_amount_def replace_char_def)
  have ctx: "row_context (Some ''Section'') (Val grp) [] None = Inr (Some ''revenue'', None)"
    using assms(4) by (simp add: row_context_def section_account_type_def)
  have ctx': "row_context (Some ''Data'') Absent
                [Cell (Val ''Product Sales''), Cell (Val ''1000''), Cell (Val ''0''),
                 Cell (Val ''2000'')] (Some ''revenue'') =
              Inr (Some ''revenue'', Some ''Product Sales'')"
    by (simp add: row_context_def name)
  show ?thesis
    by (simp add: qb_extract_def qb_validate_def qb_extract_data_def income_scenario_def
        columns ctx ctx' data_row_def or_parent_def data_cells_aligned amounts cell_output_def
        gen_then_def gen_empty_def del: parse_columns.simps)
qed

subsection \<open>C5: end-to-end scenario 1 and the alignment of cells with columns\<close>

text \<open>
  Claim C5. For a report with three parsed monthly money columns and one section row
  whose group contains \<open>Income\<close>, enclosing one data row with the cells \<open>Product Sales\<close>,
  \<open>1000\<close>, \<open>0\<close>, \<open>2000\<close>, extraction yields exactly two records and raises nothing: amount
  1000 with the period of the first column and amount 2000 with the period of the third,
  both of account type \<open>revenue\<close>, and no record for the zero cell of the second column
  (given that \<open>float\<close> reads the three strings as 1000, 0 and 2000). In general the cells
  after the first align with the parsed columns offset by one: the loop over the columns
  of a data row yields, for each pair of the columns zipped with the cells after the
  first, the record of that cell when its amount is not zero.
\<close>

theorem qb_income_scenario:
  "(pyfloat ''1000'' = Some 1000 \<and> pyfloat ''0'' = Some 0 \<and> pyfloat ''2000'' = Some 2000
      \<and> contains ''Income'' grp \<longrightarrow>
    qb_extract pyfloat
        (Some (income_scenario header_currency grp start1 end1 start2 end2 start3 end3)) =
      ([\<lparr>r_account_name = ''Product Sales'', r_account_type = ''revenue'',
          r_parent_account = None,
          r_period_start = Some start1, r_period_end = Some end1, r_amount = 1000,
          r_currency =
            (case header_currency of Absent \<Rightarrow> Some ''USD'' | Null \<Rightarrow> None | Val c \<Rightarrow> Some c),
          r_source_system = ''quickbooks'', r_source_account_id = None,
          r_source_record_id = None\<rparr>,
        \<lparr>r_account_name = ''Product Sales'', r_account_type = ''revenue'',
          r_parent_account = None,
          r_period_start = Some start3, r_period_end = Some end3, r_amount = 2000,
          r_currency =
            (case header_currency of Absent \<Rightarrow> Some ''USD'' | Null \<Rightarrow> None | Val c \<Rightarrow> Some c),
          r_source_system = ''quickbooks'', r_source_account_id = None,
          r_source_record_id = None\<rparr>],
       None))
   \<and> data_cells pyfloat header_currency name parent account_type col_data 0 columns =
       (concat (map (\<lambda>(col_def, c).
                   cell_output header_currency name parent account_type col_def
                     (cell_amount pyfloat c))
                (zip columns (tl col_data))),
        None)"
proof (intro conjI impI)
  assume "pyfloat ''1000'' = Some 1000 \<and> pyfloat ''0'' = Some 0 \<and> pyfloat ''2000'' = Some 2000
      \<and> contains ''Income'' grp"
  then show "qb_extract pyfloat
        (Some (income_scenario header_currency grp start1 end1 start2 end2 start3 end3)) =
      ([\<lparr>r_account_name = ''Product Sales'', r_account_type = ''revenue'',
          r_parent_account = None,
          r_period_start = Some start1, r_period_end = Some end1, r_amount = 1000,
          r_currency =
            (case header_currency of Absent \<Rightarrow> Some ''USD'' | Null \<Rightarrow> None | Val c \<Rightarrow> Some c),
          r_source_system = ''quickbooks'', r_source_account_id = None,
          r_source_record_id = None\<rparr>,
        \<lparr>r_account_name = ''Product Sales'', r_account_type = ''revenue'',
          r_parent_account = None,
          r_period_start = Some start3, r_period_end = Some end3, r_amount = 2000,
          r_currency =
            (case header_currency of Absent \<Rightarrow> Some ''USD'' | Null \<Rightarrow> None | Val c \<Rightarrow> Some c),
          r_source_system = ''quickbooks'', r_source_account_id = None,
          r_source_record_id = None\<rparr>],
       None)"
    by (simp add: income_scenario_extract cell_record_def)
next
  show "data_cells pyfloat header_currency name parent account_type col_data 0 columns =
       (concat (map (\<lambda>(col_def, c).
                   cell_output header_currency name parent account_type col_def
                     (cell_amount pyfloat c))
                (zip columns (tl col_data))),
        None)"
    by (simp add: data_cells_aligned drop_Suc)
qed

text \<open>Witness: the first quarter of 2024 in US dollars, read with \<open>digits_float\<close>.\<close>

theorem qb_income_scenario_witness:
  "digits_float ''1000'' = Some 1000 \<and> digits_float ''0'' = Some 0
   \<and> digits_float ''2000'' = Some 2000 \<and> contains ''Income'' ''Income''
   \<and> qb_extract digits_float
        (Some (income_scenario (Val ''USD'') ''Income'' ''2024-01-01'' ''2024-01-31''
                 ''2024-02-01'' ''2024-02-29'' ''2024-03-01'' ''2024-03-31'')) =
      ([\<lparr>r_account_name = ''Product Sales'', r_account_type = ''revenue'',
          r_parent_account = None,
          r_period_start = Some ''2024-01-01'', r_period_end = Some ''2024-01-31'',
          r_amount = 1000, r_currency = Some ''USD'',
          r_source_system = ''quickbooks'', r_source_account_id = None,
          r_source_record_id = None\<rparr>,
        \<lparr>r_account_name = ''Product Sales'', r_account_type = ''revenue'',
          r_parent_account = None,
          r_period_start = Some ''2024-03-01'', r_period_end = Some ''2024-03-31'',
          r_amount = 2000, r_currency = Some ''USD'',
          r_source_system = ''quickbooks'', r_source_account_id = None,
          r_source_record_id = None\<rparr>],
       None)"
proof -
  have hyp: "digits_float ''1000'' = Some 1000 \<and> digits_float ''0'' = Some 0
      \<and> digits_float ''2000'' = Some 2000 \<and> contains ''Income'' ''Income''"
    by (simp add: digits_float_values)
  show ?thesis
    using qb_income_scenario [of digits_float "''Income''" "Val ''USD''"
        "''2024-01-01''" "''2024-01-31''" "''2024-02-01''" "''2024-02-29''"
        "''2024-03-01''" "''2024-03-31''"] hyp
    by simp
qed

subsection \<open>C9: an amount that cannot be read is dropped like a zero\<close>

text \<open>
  Claim C9. A malformed or missing amount in a cell of a data row never makes extraction
  raise: the handler turns every exception of the conversion into the amount 0 (so
  \<open>cell_amount\<close> always returns, and the loop over the cells of a data row never
  raises); the amount of a cell is 0 when its \<open>value\<close> is \<open>null\<close>, when \<open>float\<close> rejects
  the cleaned string, and when the key is missing (the default \<open>"0"\<close>, which \<open>float\<close>
  reads as 0); a cell of amount 0 yields no record; putting the malformed cell or a cell
  \<open>"0"\<close> at a position of the row gives the same run of the loop, records and
  exception alike, so nothing distinguishes it from a zero amount and nothing is
  reported; and every record that extraction yields has a non-zero amount.
\<close>

theorem malformed_amount_dropped:
  "(\<exists>a. cell_amount pyfloat c = Inr a)
   \<and> snd (data_cells pyfloat header_currency name parent account_type col_data idx columns)
       = None
   \<and> cell_amount pyfloat (Cell Null) = Inr 0
   \<and> (pyfloat (replace_char (CHR ''$'') (replace_char (CHR '','') s)) = None \<longrightarrow>
        cell_amount pyfloat (Cell (Val s)) = Inr 0)
   \<and> (pyfloat ''0'' = Some 0 \<longrightarrow>
        cell_amount pyfloat (Cell Absent) = Inr 0 \<and> cell_amount pyfloat (Cell (Val ''0'')) = Inr 0)
   \<and> (cell_amount pyfloat c = Inr 0 \<longrightarrow>
        cell_output header_currency name parent account_type col_def (cell_amount pyfloat c) = [])
   \<and> (cell_amount pyfloat c = Inr 0 \<and> pyfloat ''0'' = Some 0 \<longrightarrow>
        data_cells pyfloat header_currency name parent account_type
            (col_data[i := c]) 0 columns =
        data_cells pyfloat header_currency name parent account_type
            (col_data[i := Cell (Val ''0'')]) 0 columns)
   \<and> (r \<in> set (fst (qb_extract pyfloat source)) \<longrightarrow> r_amount r \<noteq> 0)"
proof (intro conjI impI)
  show "\<exists>a. cell_amount pyfloat c = Inr a" by (rule cell_amount_returns)
  show "snd (data_cells pyfloat header_currency name parent account_type col_data idx columns)
       = None"
    by (simp add: data_cells_aligned)
  show "cell_amount pyfloat (Cell Null) = Inr 0"
    by (simp add: cell_amount_def try_amount_def)
  show "cell_amount pyfloat (Cell (Val s)) = Inr 0"
    if "pyfloat (replace_char (CHR ''$'') (replace_char (CHR '','') s)) = None"
    using that by (simp add: cell_amount_def try_amount_def)
  have zero: "cell_amount pyfloat (Cell (Val ''0'')) = Inr 0" if "pyfloat ''0'' = Some 0"
    using that by (simp add: cell_amount_def try_amount_def replace_char_def)
  show "cell_amount pyfloat (Cell Absent) = Inr 0" if "pyfloat ''0'' = Some 0"
    using that by (simp add: cell_amount_def try_amount_def replace_char_def)
  show "cell_amount pyfloat (Cell (Val ''0'')) = Inr 0" if "pyfloat ''0'' = Some 0"
    using that by (rule zero)
  show "cell_output header_currency name parent account_type col_def (cell_amount pyfloat c) = []"
    if "cell_amount pyfloat c = Inr 0"
    using that by (simp add: cell_output_def)
  show "data_cells pyfloat header_currency name parent account_type
            (col_data[i := c]) 0 columns =
        data_cells pyfloat header_currency name parent account_type
            (col_data[i := Cell (Val ''0'')]) 0 columns"
    if "cell_amount pyfloat c = Inr 0 \<and> pyfloat ''0'' = Some 0"
    using that zero by (intro data_cells_same_amounts) simp
  show "r_amount r \<noteq> 0" if "r \<in> set (fst (qb_extract pyfloat source))"
    using that by (rule qb_extract_nonzero)
qed

text \<open>
  Witness: the scenario above with the cell of February reading \<open>n/a\<close>. It yields the
  two records of the scenario, as with the cell \<open>0\<close>.
\<close>

theorem malformed_amount_dropped_witness:
  "(\<exists>a. cell_amount digits_float (Cell (Val ''n/a'')) = Inr a)
   \<and> digits_float (replace_char (CHR ''$'') (replace_char (CHR '','') ''n/a'')) = None
   \<and> cell_amount digits_float (Cell (Val ''n/a'')) = Inr 0
   \<and> digits_float ''0'' = Some 0
   \<and> cell_amount digits_float (Cell Absent) = Inr 0
   \<and> cell_output (Val ''USD'') ''Product Sales'' None (Some ''revenue'')
        \<lparr>title = ''Feb 2024'', start_date = Some ''2024-02-01'',
           end_date = Some ''2024-02-29'', col_key = None\<rparr>
        (cell_amount digits_float (Cell (Val ''n/a''))) = []
   \<and> data_cells digits_float (Val ''USD'') ''Product Sales'' None (Some ''revenue'')
        ([Cell (Val ''Product Sales''), Cell (Val ''1000''), Cell (Val ''0''),
          Cell (Val ''2000'')][2 := Cell (Val ''n/a'')]) 0
        [\<lparr>title = ''Jan 2024'', start_date = Some ''2024-01-01'',
            end_date = Some ''2024-01-31'', col_key = None\<rparr>,
         \<lparr>title = ''Feb 2024'', start_date = Some ''2024-02-01'',
            end_date = Some ''2024-02-29'', col_key = None\<rparr>,
         \<lparr>title = ''Mar 2024'', start_date = Some ''2024-03-01'',
            end_date = Some ''2024-03-31'', col_key = None\<rparr>] =
       data_cells digits_float (Val ''USD'') ''Product Sales'' None (Some ''revenue'')
        ([Cell (Val ''Product Sales''), Cell (Val ''1000''), Cell (Val ''0''),
          Cell (Val ''2000'')][2 := Cell (Val ''0'')]) 0
        [\<lparr>title = ''Jan 2024'', start_date = Some ''2024-01-01'',
            end_date = Some ''2024-01-31'', col_key = None\<rparr>,
         \<lparr>title = ''Feb 2024'', start_date = Some ''2024-02-01'',
            end_date = Some ''2024-02-29'', col_key = None\<rparr>,
         \<lparr>title = ''Mar 2024'', start_date = Some ''2024-03-01'',
            end_date = Some ''2024-03-31'', col_key = None\<rparr>]
   \<and> \<lparr>r_account_name = ''Product Sales'', r_account_type = ''revenue'',
        r_parent_account = None,
        r_period_start = Some ''2024-01-01'', r_period_end = Some ''2024-01-31'',
        r_amount = 1000, r_currency = Some ''USD'',
        r_source_system = ''quickbooks'', r_source_account_id = None,
        r_source_record_id = None\<rparr>
       \<in> set (fst (qb_extract digits_float
           (Some (income_scenario (Val ''USD'') ''Income'' ''2024-01-01'' ''2024-01-31''
                    ''2024-02-01'' ''2024-02-29'' ''2024-03-01'' ''2024-03-31''))))
   \<and> r_amount
        \<lparr>r_account_name = ''Product Sales'', r_account_type = ''revenue'',
          r_parent_account = None,
          r_period_start = Some ''2024-01-01'', r_period_end = Some ''2024-01-31'',
          r_amount = 1000, r_currency = Some ''USD'',
          r_source_system = ''quickbooks'', r_source_account_id = None,
          r_source_record_id = None\<rparr> \<noteq> 0"
proof -
  let ?r = "\<lparr>r_account_name = ''Product Sales'', r_account_type = ''revenue'',
        r_parent_account = None,
        r_period_start = Some ''2024-01-01'', r_period_end = Some ''2024-01-31'',
        r_amount = 1000, r_currency = Some ''USD'',
        r_source_system = ''quickbooks'', r_source_account_id = None,
        r_source_record_id = None\<rparr>"
  let ?file = "Some (income_scenario (Val ''USD'') ''Income'' ''2024-01-01'' ''2024-01-31''
                    ''2024-02-01'' ''2024-02-29'' ''2024-03-01'' ''2024-03-31'')"
  have bad: "digits_float (replace_char (CHR ''$'') (replace_char (CHR '','') ''n/a'')) = None"
    by (simp add: replace_char_def digits_float_values)
  have zero: "digits_float ''0'' = Some 0" by (simp add: digits_float_values)
  have mem: "?r \<in> set (fst (qb_extract digits_float ?file))"
    by (simp add: income_scenario_extract digits_float_values cell_record_def)
  note inst = malformed_amount_dropped
    [where pyfloat = digits_float and c = "Cell (Val ''n/a'')"
       and header_currency = "Val ''USD''" and name = "''Product Sales''" and parent = None
       and account_type = "Some ''revenue''" and s = "''n/a''"
       and col_def = "\<lparr>title = ''Feb 2024'', start_date = Some ''2024-02-01'',
           end_date = Some ''2024-02-29'', col_key = None\<rparr>"
       and i = 2 and r = ?r and source = ?file
       and col_data = "[Cell (Val ''Product Sales''), Cell (Val ''1000''), Cell (Val ''0''),
          Cell (Val ''2000'')]"
       and columns = "[\<lparr>title = ''Jan 2024'', start_date = Some ''2024-01-01'',
            end_date = Some ''2024-01-31'', col_key = None\<rparr>,
         \<lparr>title = ''Feb 2024'', start_date = Some ''2024-02-01'',
            end_date = Some ''2024-02-29'', col_key = None\<rparr>,
         \<lparr>title = ''Mar 2024'', start_date = Some ''2024-03-01'',
            end_date = Some ''2024-03-31'', col_key = None\<rparr>]"
       and idx = 0]
  from inst bad have amount: "cell_amount digits_float (Cell (Val ''n/a'')) = Inr 0"
    by blast
  from inst bad zero amount mem show ?thesis by blast
qed

section \<open>Verification: DimensionLoader.upsert_account\<close>

lemma find_map_same_test:
  assumes "\<And>row. P (f row) = P row"
  shows "find P (map f rows) = map_option f (find P rows)"
  using assms by (induction rows) simp_all

lemma find_append_new:
  "find P rows = None \<Longrightarrow> P new \<Longrightarrow> find P (rows @ [new]) = Some new"
  by (induction rows) (simp_all split: if_splits)

lemma upsert_account_cached:
  assumes "upsert_account v cache table = (k1, cache1, table1)"
  shows "cache1 (v_account_id v) = Some k1"
  using assms
  by (auto simp: upsert_account_def Let_def split: option.splits prod.splits)

lemma upsert_account_hit:
  assumes "cache1 (v_account_id v') = Some k1"
  shows "upsert_account v' cache1 table1 = (k1, cache1, table1)"
  using assms by (simp add: upsert_account_def)

text \<open>After a statement for \<open>v\<close>, the table holds a row of that id with the key returned.\<close>

lemma insert_on_conflict_update_row:
  assumes "insert_on_conflict_update v table = (k, table')"
  shows "\<exists>row. find (\<lambda>row. da_account_id row = v_account_id v) table' = Some row
           \<and> da_account_key row = k \<and> da_account_name row = v_account_name v"
proof (cases "find (\<lambda>row. da_account_id row = v_account_id v) table")
  case None
  with assms show ?thesis
    by (auto simp: insert_on_conflict_update_def find_append_new)
next
  case (Some existing)
  let ?f = "\<lambda>row. if da_account_id row = v_account_id v then excluded_update v row else row"
  have same: "(da_account_id (?f row) = v_account_id v) = (da_account_id row = v_account_id v)"
    for row by (simp add: excluded_update_def)
  have "find (\<lambda>row. da_account_id row = v_account_id v) (map ?f table) = Some (?f existing)"
    using find_map_same_test [of "\<lambda>row. da_account_id row = v_account_id v" ?f table] same Some
    by simp
  moreover have "da_account_id existing = v_account_id v"
    using Some by (auto simp: find_Some_iff)
  ultimately show ?thesis
    using assms Some by (auto simp: insert_on_conflict_update_def excluded_update_def)
qed

text \<open>A statement for an id that has a row keeps the key of that row and the size of the table.\<close>

lemma insert_on_conflict_update_existing:
  assumes "find (\<lambda>row. da_account_id row = v_account_id v') table1 = Some row"
  shows "\<exists>table2. insert_on_conflict_update v' table1 = (da_account_key row, table2)
           \<and> length table2 = length table1"
  using assms by (simp add: insert_on_conflict_update_def)

subsection \<open>C7: the cache answers first\<close>

text \<open>
  Claim C7, as the code has it. After a call of \<open>upsert_account\<close> on a loader, a
  second call on the same loader with the same \<open>account_id\<close> returns the same
  surrogate key, with unchanged attributes and with a changed \<open>account_name\<close> alike:
  it is answered from the cache and leaves cache and table as they are, so on the same
  loader a changed name is not written. On a loader whose cache does not hold the
  \<open>account_id\<close> (a new loader over the same table, as in the next run), a call with
  the same \<open>account_id\<close> and a changed \<open>account_name\<close> returns the original surrogate
  key and the row then carries the new name.
\<close>

theorem upsert_account_cache_first:
  "upsert_account v cache table = (k1, cache1, table1) \<and> v_account_id v' = v_account_id v
   \<longrightarrow>
     upsert_account v cache1 table1 = (k1, cache1, table1)
     \<and> upsert_account v' cache1 table1 = (k1, cache1, table1)
     \<and> (cache (v_account_id v) = None \<longrightarrow>
          (\<exists>table2 row.
              upsert_account v' Map.empty table1 = (k1, [v_account_id v \<mapsto> k1], table2)
              \<and> length table2 = length table1
              \<and> find (\<lambda>row. da_account_id row = v_account_id v) table2 = Some row
              \<and> da_account_key row = k1
              \<and> da_account_name row = v_account_name v'))"
proof (intro impI conjI)
  assume a: "upsert_account v cache table = (k1, cache1, table1)
               \<and> v_account_id v' = v_account_id v"
  then have cached: "cache1 (v_account_id v) = Some k1"
    using upsert_account_cached by blast
  show "upsert_account v cache1 table1 = (k1, cache1, table1)"
    using cached by (rule upsert_account_hit)
  show "upsert_account v' cache1 table1 = (k1, cache1, table1)"
    using cached a by (intro upsert_account_hit) simp
  assume miss: "cache (v_account_id v) = None"
  with a have stmt: "insert_on_conflict_update v table = (k1, table1)"
    by (auto simp: upsert_account_def Let_def split: prod.splits)
  then obtain row1 where row1:
    "find (\<lambda>row. da_account_id row = v_account_id v) table1 = Some row1"
    "da_account_key row1 = k1"
    using insert_on_conflict_update_row by blast
  from a row1(1) have "find (\<lambda>row. da_account_id row = v_account_id v') table1 = Some row1"
    by simp
  then obtain table2 where table2:
    "insert_on_conflict_update v' table1 = (k1, table2)" "length table2 = length table1"
    using insert_on_conflict_update_existing row1(2) by blast
  from table2(1) obtain row where row:
    "find (\<lambda>row. da_account_id row = v_account_id v') table2 = Some row"
    "da_account_key row = k1" "da_account_name row = v_account_name v'"
    using insert_on_conflict_update_row by blast
  have "upsert_account v' Map.empty table1 = (k1, [v_account_id v \<mapsto> k1], table2)"
    using table2(1) a by (simp add: upsert_account_def)
  with table2(2) row a
  show "\<exists>table2 row.
              upsert_account v' Map.empty table1 = (k1, [v_account_id v \<mapsto> k1], table2)
              \<and> length table2 = length table1
              \<and> find (\<lambda>row. da_account_id row = v_account_id v) table2 = Some row
              \<and> da_account_key row = k1
              \<and> da_account_name row = v_account_name v'"
    by auto
qed

lemma sales_first_call:
  "upsert_account sales_values Map.empty [] =
     (1, [''8950a54cfc54dfbf'' \<mapsto> 1], [sales_row ''Sales''])"
  by (simp add: upsert_account_def insert_on_conflict_update_def fresh_key_def
      sales_values_def sales_row_def)

text \<open>
  Witness: the first call on an empty table inserts \<open>Sales\<close> with key 1; the same
  loader answers the call for \<open>SALES\<close> with key 1 and leaves the row; a new loader
  answers with key 1 and the row reads \<open>SALES\<close>.
\<close>

theorem upsert_account_cache_first_witness:
  "upsert_account sales_values Map.empty [] =
     (1, [''8950a54cfc54dfbf'' \<mapsto> 1], [sales_row ''Sales''])
   \<and> v_account_id (sales_values\<lparr>v_account_name := ''SALES''\<rparr>) = v_account_id sales_values
   \<and> upsert_account sales_values [''8950a54cfc54dfbf'' \<mapsto> 1] [sales_row ''Sales''] =
       (1, [''8950a54cfc54dfbf'' \<mapsto> 1], [sales_row ''Sales''])
   \<and> upsert_account (sales_values\<lparr>v_account_name := ''SALES''\<rparr>)
         [''8950a54cfc54dfbf'' \<mapsto> 1] [sales_row ''Sales''] =
       (1, [''8950a54cfc54dfbf'' \<mapsto> 1], [sales_row ''Sales''])
   \<and> (Map.empty :: string \<rightharpoonup> nat) (v_account_id sales_values) = None
   \<and> (\<exists>table2 row.
          upsert_account (sales_values\<lparr>v_account_name := ''SALES''\<rparr>) Map.empty
              [sales_row ''Sales''] =
            (1, [v_account_id sales_values \<mapsto> 1], table2)
          \<and> length table2 = length [sales_row ''Sales'']
          \<and> find (\<lambda>row. da_account_id row = v_account_id sales_values) table2 = Some row
          \<and> da_account_key row = 1
          \<and> da_account_name row = v_account_name (sales_values\<lparr>v_account_name := ''SALES''\<rparr>))"
proof -
  have same: "v_account_id (sales_values\<lparr>v_account_name := ''SALES''\<rparr>) = v_account_id sales_values"
    by simp
  have miss: "(Map.empty :: string \<rightharpoonup> nat) (v_account_id sales_values) = None" by simp
  show ?thesis
    using upsert_account_cache_first
      [of sales_values Map.empty "[]" 1 "[''8950a54cfc54dfbf'' \<mapsto> 1]" "[sales_row ''Sales'']"
          "sales_values\<lparr>v_account_name := ''SALES''\<rparr>"]
      sales_first_call same miss
    by blast
qed

text \<open>
  The claim as the specification words it (the second call on the same loader writes
  the changed name) fails: after the two calls on one loader the row still reads
  \<open>Sales\<close>.
\<close>

theorem upsert_account_same_loader_counterexample:
  "upsert_account sales_values Map.empty [] =
     (1, [''8950a54cfc54dfbf'' \<mapsto> 1], [sales_row ''Sales''])
   \<and> upsert_account (sales_values\<lparr>v_account_name := ''SALES''\<rparr>)
         [''8950a54cfc54dfbf'' \<mapsto> 1] [sales_row ''Sales''] =
       (1, [''8950a54cfc54dfbf'' \<mapsto> 1], [sales_row ''Sales''])
   \<and> da_account_name (sales_row ''Sales'') \<noteq> ''SALES''"
proof (intro conjI)
  show "upsert_account sales_values Map.empty [] =
     (1, [''8950a54cfc54dfbf'' \<mapsto> 1], [sales_row ''Sales''])"
    by (rule sales_first_call)
  show "upsert_account (sales_values\<lparr>v_account_name := ''SALES''\<rparr>)
         [''8950a54cfc54dfbf'' \<mapsto> 1] [sales_row ''Sales''] =
       (1, [''8950a54cfc54dfbf'' \<mapsto> 1], [sales_row ''Sales''])"
    by (simp add: upsert_account_def sales_values_def)
  show "da_account_name (sales_row ''Sales'') \<noteq> ''SALES''"
    by (simp add: sales_row_def)
qed

section \<open>Verification: transform and the orchestrator\<close>

subsection \<open>When transform raises\<close>



subsection \<open>The counts of a run\<close>






subsection \<open>A stream with one failing record\<close>




subsection \<open>C6: a record whose date cannot be parsed fails alone\<close>



end
